theory Spec2Isabelle
  imports Main "HOL-Library.Word"
begin

unbundle bit_operations_syntax

section \<open>Go values, errors and the JSONValue wrapper\<close>

text \<open>
  The package stores parsed JSON as Go \<^verbatim>\<open>interface{}\<close> values: \<^verbatim>\<open>nil\<close>, \<^verbatim>\<open>bool\<close>,
  \<^verbatim>\<open>float64\<close>, \<^verbatim>\<open>string\<close>, \<^verbatim>\<open>[]interface{}\<close> and \<^verbatim>\<open>map[string]interface{}\<close>.
  Path keys, \<^verbatim>\<open>Parse\<close> inputs and \<^verbatim>\<open>Valid\<close> payloads are \<^verbatim>\<open>interface{}\<close> as well, so the
  same type also has a native \<^verbatim>\<open>int\<close>, a \<^verbatim>\<open>[]byte\<close>, a \<^verbatim>\<open>JSONValue\<close>, an \<^verbatim>\<open>error\<close>, a
  pointer (\<open>GPtr\<close>, with a name for what it points to) and one case for the values of every
  other dynamic type (\<open>GOther\<close>, with a description of the value).

  A \<^verbatim>\<open>float64\<close> is its IEEE 754 binary64 bit pattern. A Go \<^verbatim>\<open>int\<close> is 64 bits wide and
  modelled as a mathematical integer: the code does no arithmetic on it, and the two
  conversions that produce one (\<^verbatim>\<open>strconv.Atoi\<close> and \<^verbatim>\<open>int(v)\<close>) check the range below.
  A Go map is an association list read with \<open>map_of\<close>.

  \<^verbatim>\<open>fmt.Errorf(format, args...)\<close> is kept as the format string and its operands: the
  text of the message is a function of the two, so equal \<open>Errorf\<close> values are equal
  messages, and the operand bound to a verb is what the message shows at that verb.
\<close>

type_synonym float64 = "64 word"

datatype go_value =
    GNil
  | GBool bool
  | GFloat64 float64
  | GInt int
  | GString string
  | GBytes string
  | GSlice "go_value list"
  | GMap "(string \<times> go_value) list"
  | GJSONValue JSONValue
  | GError go_error
  | GPtr string
  | GOther string
and JSONValue =
    JSONValue (data: go_value) (err: "go_error option")
and go_error =
    Errorf string "go_value list"
  | JSONError (Op: string) (Err: "go_error option")
  | NumError (Func: string) (Num: string) (NumErr: go_error)
  | ErrSyntax
  | ErrRange
  | ExternalError string

text \<open>
  The value of \<^verbatim>\<open>int(v)\<close> for a \<^verbatim>\<open>float64\<close> that no \<^verbatim>\<open>int\<close> represents (NaN, an
  infinity, a magnitude of \<open>2^63\<close> or more) is implementation-dependent in Go; the
  functions that convert take it as a parameter.
\<close>

type_synonym float_conv = "float64 \<Rightarrow> int"

definition float64_to_int :: "float_conv \<Rightarrow> float64 \<Rightarrow> int" where
  "float64_to_int unrep v =
     (let e = unat (take_bit 11 (drop_bit 52 v));
          m = uint (take_bit 52 v);
          mag = (if e = 0 then 0
                 else if 1075 \<le> e then (2 ^ 52 + m) * 2 ^ (e - 1075)
                 else (2 ^ 52 + m) div 2 ^ (1075 - e));
          r = (if bit v 63 then - mag else mag)
      in if e = 2047 then unrep v
         else if - (2 ^ 63) \<le> r \<and> r < 2 ^ 63 then r
         else unrep v)"

definition float64_nonzero :: "float64 \<Rightarrow> bool" where
  "float64_nonzero v = (take_bit 63 v \<noteq> 0)"

text \<open>
  On amd64 the conversion instruction answers every such input with the smallest
  \<^verbatim>\<open>int\<close>; this instance serves the concrete examples.
\<close>

definition unrep_amd64 :: float_conv where
  "unrep_amd64 v = - (2 ^ 63)"

subsection \<open>strconv\<close>

text \<open>
  \<^verbatim>\<open>strconv.Atoi\<close> of the Go standard library for a 64-bit \<^verbatim>\<open>int\<close>: an optional sign,
  then one or more decimal digits, scanned left to right; the first byte that is not a
  digit is a syntax error, a magnitude that leaves the range is a range error.
  \<open>ParseUint\<close> is the digit loop of \<^verbatim>\<open>strconv.ParseUint\<close> in base 10 with 64 bits, its
  second argument the value read so far.
\<close>

definition is_digit :: "char \<Rightarrow> bool" where
  "is_digit c = (48 \<le> (of_char c :: int) \<and> (of_char c :: int) \<le> 57)"

definition digit_val :: "char \<Rightarrow> int" where
  "digit_val c = of_char c - 48"

definition maxUint64 :: int where
  "maxUint64 = 2 ^ 64 - 1"

fun ParseUint :: "string \<Rightarrow> int \<Rightarrow> int \<times> go_error option" where
  "ParseUint [] n = (n, None)"
| "ParseUint (c # cs) n =
     (if \<not> is_digit c then (0, Some ErrSyntax)
      else if maxUint64 < n * 10 + digit_val c then (maxUint64, Some ErrRange)
      else ParseUint cs (n * 10 + digit_val c))"

definition Atoi :: "string \<Rightarrow> int \<times> go_error option" where
  "Atoi s =
     (if s = [] then (0, Some (NumError ''Atoi'' s ErrSyntax))
      else
        let neg = (hd s = CHR ''-'');
            ds = (if hd s = CHR ''+'' \<or> hd s = CHR ''-'' then tl s else s)
        in if ds = [] then (0, Some (NumError ''Atoi'' s ErrSyntax))
           else
             (case ParseUint ds 0 of
                (un, e) \<Rightarrow>
                  if e = Some ErrSyntax then (0, Some (NumError ''Atoi'' s ErrSyntax))
                  else if \<not> neg \<and> 2 ^ 63 \<le> un then (2 ^ 63 - 1, Some (NumError ''Atoi'' s ErrRange))
                  else if neg \<and> 2 ^ 63 < un then (- (2 ^ 63), Some (NumError ''Atoi'' s ErrRange))
                  else (if neg then - un else un, None)))"

definition ParseBool :: "string \<Rightarrow> bool \<times> go_error option" where
  "ParseBool str =
     (if str \<in> set [''1'', ''t'', ''T'', ''true'', ''TRUE'', ''True''] then (True, None)
      else if str \<in> set [''0'', ''f'', ''F'', ''false'', ''FALSE'', ''False''] then (False, None)
      else (False, Some (NumError ''ParseBool'' str ErrSyntax)))"

text \<open>
  What \<^verbatim>\<open>Atoi\<close> accepts, said directly: an optional \<^verbatim>\<open>+\<close> or \<^verbatim>\<open>-\<close>, then one or more
  decimal digits whose signed value is an \<^verbatim>\<open>int\<close>. The lemmas \<open>Atoi_ok_iff\<close> and
  \<open>Atoi_ok_value\<close> below relate the two.
\<close>

definition decimal_value :: "string \<Rightarrow> int" where
  "decimal_value ds = foldl (\<lambda>n c. n * 10 + digit_val c) 0 ds"

definition signed_decimal :: "string \<Rightarrow> bool" where
  "signed_decimal s =
     (case s of
        [] \<Rightarrow> False
      | c # cs \<Rightarrow>
          if c = CHR ''-'' then cs \<noteq> [] \<and> list_all is_digit cs \<and> decimal_value cs \<le> 2 ^ 63
          else if c = CHR ''+'' then cs \<noteq> [] \<and> list_all is_digit cs \<and> decimal_value cs < 2 ^ 63
          else list_all is_digit s \<and> decimal_value s < 2 ^ 63)"

definition signed_value :: "string \<Rightarrow> int" where
  "signed_value s =
     (case s of
        [] \<Rightarrow> 0
      | c # cs \<Rightarrow>
          if c = CHR ''-'' then - decimal_value cs
          else if c = CHR ''+'' then decimal_value cs
          else decimal_value s)"

section \<open>The JSONValue methods\<close>

definition Valid :: "go_value \<Rightarrow> JSONValue" where
  "Valid d = JSONValue d None"

definition Invalid :: "go_error option \<Rightarrow> JSONValue" where
  "Invalid e = JSONValue GNil (Some (JSONError ''Invalid'' e))"

definition IsValid :: "JSONValue \<Rightarrow> bool" where
  "IsValid j = (err j = None)"

definition Error :: "JSONValue \<Rightarrow> go_error option" where
  "Error j = err j"

subsection \<open>Navigation\<close>

definition convertToIndex :: "float_conv \<Rightarrow> go_value \<Rightarrow> int \<times> go_error option" where
  "convertToIndex unrep key =
     (case key of
        GInt v \<Rightarrow> (v, None)
      | GString v \<Rightarrow> Atoi v
      | GFloat64 v \<Rightarrow> (float64_to_int unrep v, None)
      | _ \<Rightarrow> (0, Some (Errorf ''cannot convert %T to array index'' [key])))"

text \<open>
  Every failure in the package is the literal \<^verbatim>\<open>JSONValue{err: &JSONError{Op: op, Err: e}}\<close>:
  the \<^verbatim>\<open>data\<close> field is left \<^verbatim>\<open>nil\<close>.
\<close>

definition failed :: "string \<Rightarrow> go_error \<Rightarrow> JSONValue" where
  "failed op e = JSONValue GNil (Some (JSONError op (Some e)))"

text \<open>
  The loop of \<^verbatim>\<open>Get\<close>: \<open>current\<close> is the node reached so far, \<open>i\<close> the zero-based position
  of the next key. Every failure returns at once.
\<close>

fun Get_loop :: "float_conv \<Rightarrow> go_value \<Rightarrow> int \<Rightarrow> go_value list \<Rightarrow> JSONValue" where
  "Get_loop unrep current i [] = JSONValue current None"
| "Get_loop unrep current i (key # keys) =
     (if current = GNil then
        failed ''Get'' (Errorf ''cannot access key %v on nil value at position %d'' [key, GInt i])
      else
        (case current of
           GMap c \<Rightarrow>
             (case key of
                GString keyStr \<Rightarrow>
                  (case map_of c keyStr of
                     None \<Rightarrow>
                       failed ''Get''
                         (Errorf ''key %q not found at position %d'' [GString keyStr, GInt i])
                   | Some child \<Rightarrow> Get_loop unrep child (i + 1) keys)
              | _ \<Rightarrow>
                  failed ''Get''
                    (Errorf ''key must be string for object access, got %T at position %d''
                       [key, GInt i]))
         | GSlice c \<Rightarrow>
             (case convertToIndex unrep key of
                (idx, Some e) \<Rightarrow>
                  failed ''Get''
                    (Errorf ''invalid array index %v at position %d: %v'' [key, GInt i, GError e])
              | (idx, None) \<Rightarrow>
                  if idx < 0 \<or> int (length c) \<le> idx then
                    failed ''Get''
                      (Errorf ''array index %d out of bounds (length: %d) at position %d''
                         [GInt idx, GInt (int (length c)), GInt i])
                  else Get_loop unrep (c ! nat idx) (i + 1) keys)
         | _ \<Rightarrow>
             failed ''Get''
               (Errorf ''cannot access key %v on type %T at position %d''
                  [key, current, GInt i])))"

definition Get :: "float_conv \<Rightarrow> JSONValue \<Rightarrow> go_value list \<Rightarrow> JSONValue" where
  "Get unrep j keys =
     (if err j \<noteq> None then j
      else if keys = [] then j
      else Get_loop unrep (data j) 0 keys)"

definition GetOr :: "float_conv \<Rightarrow> JSONValue \<Rightarrow> go_value \<Rightarrow> go_value list \<Rightarrow> go_value" where
  "GetOr unrep j defaultValue keys =
     (let result = Get unrep j keys
      in if err result \<noteq> None then defaultValue else data result)"

definition Has :: "float_conv \<Rightarrow> JSONValue \<Rightarrow> go_value list \<Rightarrow> bool" where
  "Has unrep j keys = IsValid (Get unrep j keys)"

subsection \<open>Type conversion\<close>

text \<open>
  Go's multiple results \<^verbatim>\<open>(T, error)\<close> are pairs; the second component is \<open>None\<close> for a
  \<^verbatim>\<open>nil\<close> error. \<^verbatim>\<open>fmt.Sprintf("%v", v)\<close>, \<^verbatim>\<open>strconv.ParseFloat(v, 64)\<close> and the conversion
  \<^verbatim>\<open>float64(v)\<close> of an \<^verbatim>\<open>int\<close> belong to the Go library and runtime and are parameters of
  the methods that call them. The method \<^verbatim>\<open>Int\<close> is \<open>IntV\<close> here, since HOL reads \<open>Int\<close> as
  set intersection.
\<close>

definition String :: "(go_value \<Rightarrow> string) \<Rightarrow> JSONValue \<Rightarrow> string \<times> go_error option" where
  "String sprint j =
     (if err j \<noteq> None then ([], err j)
      else
        (case data j of
           GString v \<Rightarrow> (v, None)
         | GNil \<Rightarrow> ([], None)
         | v \<Rightarrow> (sprint v, None)))"

definition StringOr :: "(go_value \<Rightarrow> string) \<Rightarrow> JSONValue \<Rightarrow> string \<Rightarrow> string" where
  "StringOr sprint j defaultVal =
     (case String sprint j of
        (s, e) \<Rightarrow> if e \<noteq> None \<or> s = [] then defaultVal else s)"

definition IntV :: "float_conv \<Rightarrow> JSONValue \<Rightarrow> int \<times> go_error option" where
  "IntV unrep j =
     (if err j \<noteq> None then (0, err j)
      else
        (case data j of
           GFloat64 v \<Rightarrow> (float64_to_int unrep v, None)
         | GInt v \<Rightarrow> (v, None)
         | GString v \<Rightarrow>
             (case Atoi v of
                (i, None) \<Rightarrow> (i, None)
              | (i, Some e) \<Rightarrow>
                  (0, Some (JSONError ''Int''
                     (Some (Errorf ''cannot convert string %q to int'' [GString v])))))
         | GNil \<Rightarrow> (0, None)
         | v \<Rightarrow> (0, Some (JSONError ''Int'' (Some (Errorf ''cannot convert %T to int'' [v]))))))"

definition IntOr :: "float_conv \<Rightarrow> JSONValue \<Rightarrow> int \<Rightarrow> int" where
  "IntOr unrep j defaultValue =
     (case IntV unrep j of (i, None) \<Rightarrow> i | (i, Some e) \<Rightarrow> defaultValue)"

definition Float64 ::
  "(string \<Rightarrow> float64 \<times> go_error option) \<Rightarrow> (int \<Rightarrow> float64) \<Rightarrow> JSONValue
     \<Rightarrow> float64 \<times> go_error option" where
  "Float64 parseFloat ofInt j =
     (if err j \<noteq> None then (0, err j)
      else
        (case data j of
           GFloat64 v \<Rightarrow> (v, None)
         | GInt v \<Rightarrow> (ofInt v, None)
         | GString v \<Rightarrow>
             (case parseFloat v of
                (f, None) \<Rightarrow> (f, None)
              | (f, Some e) \<Rightarrow>
                  (0, Some (JSONError ''Float64''
                     (Some (Errorf ''cannot convert string %q to float64'' [GString v])))))
         | GNil \<Rightarrow> (0, None)
         | v \<Rightarrow>
             (0, Some (JSONError ''Float64''
                (Some (Errorf ''cannot convert %T to float64'' [v]))))))"

definition Float64Or ::
  "(string \<Rightarrow> float64 \<times> go_error option) \<Rightarrow> (int \<Rightarrow> float64) \<Rightarrow> JSONValue
     \<Rightarrow> float64 \<Rightarrow> float64" where
  "Float64Or parseFloat ofInt j defaultValue =
     (case Float64 parseFloat ofInt j of (f, None) \<Rightarrow> f | (f, Some e) \<Rightarrow> defaultValue)"

definition Bool :: "JSONValue \<Rightarrow> bool \<times> go_error option" where
  "Bool j =
     (if err j \<noteq> None then (False, err j)
      else
        (case data j of
           GBool v \<Rightarrow> (v, None)
         | GString v \<Rightarrow>
             (case ParseBool v of
                (b, None) \<Rightarrow> (b, None)
              | (b, Some e) \<Rightarrow>
                  (False, Some (JSONError ''Bool''
                     (Some (Errorf ''cannot convert string %q to bool'' [GString v])))))
         | GFloat64 v \<Rightarrow> (float64_nonzero v, None)
         | GNil \<Rightarrow> (False, None)
         | v \<Rightarrow>
             (False, Some (JSONError ''Bool'' (Some (Errorf ''cannot convert %T to bool'' [v]))))))"

definition BoolOr :: "JSONValue \<Rightarrow> bool \<Rightarrow> bool" where
  "BoolOr j defaultValue = (case Bool j of (b, None) \<Rightarrow> b | (b, Some e) \<Rightarrow> defaultValue)"

subsection \<open>Iteration, raw access and type names\<close>

text \<open>A \<^verbatim>\<open>nil\<close> slice and a \<^verbatim>\<open>nil\<close> map are the empty list.\<close>

definition Array :: "JSONValue \<Rightarrow> JSONValue list \<times> go_error option" where
  "Array j =
     (if err j \<noteq> None then ([], err j)
      else
        (case data j of
           GSlice arr \<Rightarrow> (map (\<lambda>item. JSONValue item None) arr, None)
         | v \<Rightarrow>
             ([], Some (JSONError ''Array''
                (Some (Errorf ''value is not an array, got %T'' [v]))))))"

definition Object :: "JSONValue \<Rightarrow> (string \<times> JSONValue) list \<times> go_error option" where
  "Object j =
     (if err j \<noteq> None then ([], err j)
      else
        (case data j of
           GMap obj \<Rightarrow> (map (\<lambda>(key, v). (key, JSONValue v None)) obj, None)
         | v \<Rightarrow>
             ([], Some (JSONError ''Object''
                (Some (Errorf ''value is not an object, got %T'' [v]))))))"

definition Raw :: "JSONValue \<Rightarrow> go_value" where
  "Raw j = (if err j \<noteq> None then GNil else data j)"

definition IsNull :: "JSONValue \<Rightarrow> bool" where
  "IsNull j = (err j = None \<and> data j = GNil)"

definition Type :: "JSONValue \<Rightarrow> string" where
  "Type j =
     (if err j \<noteq> None then ''error''
      else
        (case data j of
           GNil \<Rightarrow> ''null''
         | GBool v \<Rightarrow> ''boolean''
         | GFloat64 v \<Rightarrow> ''number''
         | GString v \<Rightarrow> ''string''
         | GSlice v \<Rightarrow> ''array''
         | GMap v \<Rightarrow> ''object''
         | _ \<Rightarrow> ''unknown''))"

section \<open>Serialisation and parsing\<close>

subsection \<open>The byte-slice pool\<close>

text \<open>
  \<^verbatim>\<open>bytesPool\<close> is a \<^verbatim>\<open>sync.Pool\<close> of \<^verbatim>\<open>*[]byte\<close>. A slice is its bytes and its capacity;
  the pool is the list of the slices it holds and is passed through every function that
  uses it. A buffer taken from the pool belongs to the caller until it is put back, so
  buffers are values here.
\<close>

record buffer =
  buf_bytes :: string
  buf_cap :: nat

text \<open>
  What \<^verbatim>\<open>encoding/json\<close>, \<^verbatim>\<open>reflect\<close>, \<^verbatim>\<open>sync.Pool\<close> and the slice runtime decide is a
  parameter:
  \<^item> \<open>json_marshal\<close>: the JSON text of a value, or the error of \<^verbatim>\<open>json.Marshal\<close> and of the
    encoder;
  \<^item> \<open>json_unmarshal\<close>: \<^verbatim>\<open>json.Unmarshal(data, &result)\<close> for a \<^verbatim>\<open>result\<close> of type
    \<^verbatim>\<open>interface{}\<close>;
  \<^item> \<open>json_unmarshal_into\<close>: the error, if any, of \<^verbatim>\<open>json.Unmarshal(data, dest)\<close> for a
    typed destination (what is written through the pointer is not modelled);
  \<^item> \<open>reflect_assignable\<close>: \<^verbatim>\<open>destElem.CanSet()\<close> and
    \<^verbatim>\<open>srcValue.Type().AssignableTo(destElem.Type())\<close>;
  \<^item> \<open>growslice\<close>: the capacity \<^verbatim>\<open>append\<close> chooses when the old one (first argument) is
    too small for the new length (second argument);
  \<^item> \<open>pool_choice\<close>: which pooled item \<^verbatim>\<open>sync.Pool.Get\<close> hands out, \<open>None\<close> when it
    ignores the pool and calls \<^verbatim>\<open>New\<close>.
\<close>

record go_env =
  json_marshal :: "go_value \<Rightarrow> string \<times> go_error option"
  json_unmarshal :: "string \<Rightarrow> go_value \<times> go_error option"
  json_unmarshal_into :: "string \<Rightarrow> go_value \<Rightarrow> go_error option"
  reflect_assignable :: "go_value \<Rightarrow> go_value \<Rightarrow> bool"
  growslice :: "nat \<Rightarrow> nat \<Rightarrow> nat"
  pool_choice :: "buffer list \<Rightarrow> nat option"

definition new_buffer :: buffer where
  "new_buffer = \<lparr>buf_bytes = [], buf_cap = 1024\<rparr>"

definition getBytesBuffer :: "go_env \<Rightarrow> buffer list \<Rightarrow> buffer \<times> buffer list" where
  "getBytesBuffer env pool =
     (case pool_choice env pool of
        None \<Rightarrow> (new_buffer, pool)
      | Some k \<Rightarrow>
          if k < length pool then (pool ! k, take k pool @ drop (Suc k) pool)
          else (new_buffer, pool))"

definition putBytesBuffer :: "buffer \<Rightarrow> buffer list \<Rightarrow> buffer list" where
  "putBytesBuffer b pool = b\<lparr>buf_bytes := []\<rparr> # pool"

text \<open>\<^verbatim>\<open>bytesWriter.Write\<close> appends to the buffer and never fails.\<close>

definition bytesWriter_Write :: "go_env \<Rightarrow> buffer \<Rightarrow> string \<Rightarrow> buffer" where
  "bytesWriter_Write env b p =
     (let n = length (buf_bytes b) + length p
      in \<lparr>buf_bytes = buf_bytes b @ p,
          buf_cap = (if n \<le> buf_cap b then buf_cap b else growslice env (buf_cap b) n)\<rparr>)"

text \<open>
  \<^verbatim>\<open>json.Encoder.Encode\<close> writes nothing when the value does not marshal, and otherwise
  the JSON text followed by a newline, in one \<^verbatim>\<open>Write\<close>.
\<close>

definition Encoder_Encode :: "go_env \<Rightarrow> buffer \<Rightarrow> go_value \<Rightarrow> buffer \<times> go_error option" where
  "Encoder_Encode env b v =
     (case json_marshal env v of
        (out, Some e) \<Rightarrow> (b, Some e)
      | (out, None) \<Rightarrow> (bytesWriter_Write env b (out @ [CHR 0x0A]), None))"

definition trim_newline :: "string \<Rightarrow> string" where
  "trim_newline result =
     (if 0 < length result \<and> last result = CHR 0x0A then butlast result else result)"

subsection \<open>Stringify\<close>

text \<open>
  The part of \<^verbatim>\<open>Stringify\<close> from \<^verbatim>\<open>getBytesBuffer\<close> on; \<open>v\<close> is the value to encode, the
  data of the \<^verbatim>\<open>JSONValue\<close> when one was given. The deferred \<^verbatim>\<open>putBytesBuffer\<close> runs on
  both returns.
\<close>

definition Stringify_encode ::
  "go_env \<Rightarrow> buffer list \<Rightarrow> go_value \<Rightarrow> (string \<times> go_error option) \<times> buffer list" where
  "Stringify_encode env pool v =
     (let (buffer, pool1) = getBytesBuffer env pool;
          buffer1 = (if buf_cap buffer < 512 then new_buffer else buffer)
      in (case Encoder_Encode env buffer1 v of
            (buffer2, Some e) \<Rightarrow>
              (([], Some (JSONError ''Stringify'' (Some e))), putBytesBuffer buffer2 pool1)
          | (buffer2, None) \<Rightarrow>
              ((trim_newline (buf_bytes buffer2), None), putBytesBuffer buffer2 pool1)))"

definition Stringify ::
  "go_env \<Rightarrow> buffer list \<Rightarrow> go_value \<Rightarrow> (string \<times> go_error option) \<times> buffer list" where
  "Stringify env pool v =
     (if v = GNil then ((''null'', None), pool)
      else
        (case v of
           GJSONValue jv \<Rightarrow>
             if err jv \<noteq> None then (([], err jv), pool)
             else Stringify_encode env pool (data jv)
         | _ \<Rightarrow> Stringify_encode env pool v))"

subsection \<open>To\<close>

text \<open>A destination is a pointer when \<^verbatim>\<open>reflect\<close> reports the kind \<^verbatim>\<open>Ptr\<close>.\<close>

definition is_ptr :: "go_value \<Rightarrow> bool" where
  "is_ptr v = (case v of GPtr a \<Rightarrow> True | _ \<Rightarrow> False)"

definition To ::
  "go_env \<Rightarrow> buffer list \<Rightarrow> JSONValue \<Rightarrow> go_value \<Rightarrow> go_error option \<times> buffer list" where
  "To env pool j dest =
     (if err j \<noteq> None then (Some (JSONError ''To'' (err j)), pool)
      else if dest = GNil then
        (Some (JSONError ''To'' (Some (Errorf ''destination cannot be nil'' []))), pool)
      else if \<not> is_ptr dest then
        (Some (JSONError ''To''
           (Some (Errorf ''destination must be a pointer, got %T'' [dest]))), pool)
      else if data j \<noteq> GNil \<and> reflect_assignable env (data j) dest then (None, pool)
      else
        let (buffer, pool1) = getBytesBuffer env pool;
            buffer1 = buffer\<lparr>buf_bytes := []\<rparr>
        in (case Encoder_Encode env buffer1 (data j) of
              (buffer2, Some e) \<Rightarrow>
                (Some (JSONError ''To''
                   (Some (Errorf ''failed to marshal data: %w'' [GError e]))),
                 putBytesBuffer buffer2 pool1)
            | (buffer2, None) \<Rightarrow>
                let buffer3 = buffer2\<lparr>buf_bytes := trim_newline (buf_bytes buffer2)\<rparr>
                in (case json_unmarshal_into env (buf_bytes buffer3) dest of
                      Some e \<Rightarrow>
                        (Some (JSONError ''To''
                           (Some (Errorf ''failed to unmarshal into destination: %w''
                              [GError e]))),
                         putBytesBuffer buffer3 pool1)
                    | None \<Rightarrow> (None, putBytesBuffer buffer3 pool1))))"

subsection \<open>Parse\<close>

text \<open>
  The part of \<^verbatim>\<open>Parse\<close> after its type switch, reached with the bytes to decode.
\<close>

definition Parse_bytes :: "go_env \<Rightarrow> string \<Rightarrow> go_value \<Rightarrow> JSONValue" where
  "Parse_bytes env jsonBytes structDest =
     (if structDest \<noteq> GNil then
        (case json_unmarshal_into env jsonBytes structDest of
           Some e \<Rightarrow> failed ''Parse'' e
         | None \<Rightarrow>
             (case json_unmarshal env jsonBytes of
                (result, Some e) \<Rightarrow> failed ''Parse'' e
              | (result, None) \<Rightarrow> JSONValue result None))
      else
        (case json_unmarshal env jsonBytes of
           (result, Some e) \<Rightarrow> failed ''Parse'' e
         | (result, None) \<Rightarrow> JSONValue result None))"

text \<open>
  \<^verbatim>\<open>Parse(v, dest...)\<close>: \<open>dest\<close> is the list of the variadic arguments, empty for
  \<^verbatim>\<open>Parse(v)\<close>.
\<close>

definition Parse ::
  "go_env \<Rightarrow> buffer list \<Rightarrow> go_value \<Rightarrow> go_value list \<Rightarrow> JSONValue \<times> buffer list" where
  "Parse env pool v dest =
     (if v = GNil then (failed ''Parse'' (Errorf ''input is nil'' []), pool)
      else
        let structDest = (if 0 < length dest then hd dest else GNil)
        in if structDest \<noteq> GNil \<and> \<not> is_ptr structDest then
             (failed ''Parse'' (Errorf ''destination must be a pointer, got %T'' [structDest]),
              pool)
           else
             (case v of
                GString val \<Rightarrow>
                  if val = [] then (failed ''Parse'' (Errorf ''empty string'' []), pool)
                  else (Parse_bytes env val structDest, pool)
              | GBytes val \<Rightarrow>
                  if length val = 0 then
                    (failed ''Parse'' (Errorf ''empty byte slice'' []), pool)
                  else (Parse_bytes env val structDest, pool)
              | GJSONValue val \<Rightarrow>
                  if structDest \<noteq> GNil \<and> err val = None then
                    (case To env pool val structDest of
                       (Some unmarshalErr, pool') \<Rightarrow> (failed ''Parse'' unmarshalErr, pool')
                     | (None, pool') \<Rightarrow> (val, pool'))
                  else (val, pool)
              | _ \<Rightarrow>
                  (case json_marshal env v of
                     (jsonBytes, Some marshalErr) \<Rightarrow> (failed ''Parse'' marshalErr, pool)
                   | (jsonBytes, None) \<Rightarrow> (Parse_bytes env jsonBytes structDest, pool))))"

subsection \<open>Clone\<close>

text \<open>
  \<^verbatim>\<open>Clone\<close> encodes the data into a pooled buffer and parses the bytes again, before the
  deferred \<^verbatim>\<open>putBytesBuffer\<close> returns the buffer.
\<close>

definition Clone :: "go_env \<Rightarrow> buffer list \<Rightarrow> JSONValue \<Rightarrow> JSONValue \<times> buffer list" where
  "Clone env pool j =
     (if err j \<noteq> None then (j, pool)
      else
        let (buffer, pool1) = getBytesBuffer env pool;
            buffer1 = buffer\<lparr>buf_bytes := []\<rparr>
        in (case Encoder_Encode env buffer1 (data j) of
              (buffer2, Some e) \<Rightarrow> (failed ''Clone'' e, putBytesBuffer buffer2 pool1)
            | (buffer2, None) \<Rightarrow>
                let buffer3 = buffer2\<lparr>buf_bytes := trim_newline (buf_bytes buffer2)\<rparr>
                in (case Parse env pool1 (GBytes (buf_bytes buffer3)) [] of
                      (result, pool2) \<Rightarrow> (result, putBytesBuffer buffer3 pool2))))"

text \<open>
  The pool invariant: every pooled buffer is empty. \<^verbatim>\<open>New\<close> makes an empty buffer and
  \<^verbatim>\<open>putBytesBuffer\<close> truncates the one it returns; \<^verbatim>\<open>Stringify\<close>, \<^verbatim>\<open>To\<close>, \<^verbatim>\<open>Parse\<close> and
  \<^verbatim>\<open>Clone\<close>, the only users of the pool, preserve it (lemmas \<open>Stringify_encode_pool\<close>,
  \<open>To_pool\<close>, \<open>Parse_pool\<close> and \<open>Clone_pool\<close>).
\<close>

definition pool_empty_buffers :: "buffer list \<Rightarrow> bool" where
  "pool_empty_buffers pool = list_all (\<lambda>b. buf_bytes b = []) pool"

text \<open>
  An environment for the concrete examples: its encoder and its decoder know the
  JSON text \<^verbatim>\<open>null\<close> only and report an error on everything else.
\<close>

definition null_only_env :: go_env where
  "null_only_env =
     \<lparr>json_marshal =
        (\<lambda>v. if v = GNil then (''null'', None)
             else ([], Some (ExternalError ''json: unsupported value''))),
      json_unmarshal =
        (\<lambda>b. if b = ''null'' then (GNil, None)
             else (GNil, Some (ExternalError ''invalid character''))),
      json_unmarshal_into = (\<lambda>b dest. None),
      reflect_assignable = (\<lambda>src dest. False),
      growslice = (\<lambda>old n. 2 * n),
      pool_choice = (\<lambda>pool. Some 0)\<rparr>"

section \<open>Properties\<close>

subsection \<open>Auxiliary facts about navigation\<close>

lemma JSONValue_valid_eq: "err j = None \<Longrightarrow> j = JSONValue (data j) None"
  by (cases j) simp

lemma Get_failed_receiver: "err j = Some e \<Longrightarrow> Get unrep j keys = j"
  by (simp add: Get_def)

lemma foldl_Get_failed: "err j = Some e \<Longrightarrow> foldl (Get unrep) j kss = j"
  by (induction kss) (simp_all add: Get_failed_receiver)

lemma Get_valid: "err j = None \<Longrightarrow> Get unrep j keys = Get_loop unrep (data j) 0 keys"
  by (cases keys) (simp_all add: Get_def JSONValue_valid_eq [symmetric])

lemma Get_loop_failed_data:
  "err (Get_loop unrep current i keys) \<noteq> None \<Longrightarrow> data (Get_loop unrep current i keys) = GNil"
proof (induction keys arbitrary: current i)
  case Nil
  then show ?case by simp
next
  case (Cons key keys)
  then show ?case
    by (auto simp: failed_def split: go_value.splits option.splits prod.splits if_splits)
qed

subsection \<open>Sticky errors\<close>

text \<open>
  C1. A \<^verbatim>\<open>JSONValue\<close> in failure state is returned unchanged by \<^verbatim>\<open>Get\<close>, for every key
  sequence and for every chain of \<^verbatim>\<open>Get\<close> calls, and \<^verbatim>\<open>String\<close>, \<^verbatim>\<open>Int\<close>, \<^verbatim>\<open>Float64\<close>,
  \<^verbatim>\<open>Bool\<close>, \<^verbatim>\<open>Array\<close> and \<^verbatim>\<open>Object\<close> return exactly the receiver's error: the same
  operation tag and the same message, neither cleared nor replaced nor wrapped.
\<close>

theorem sticky_propagation:
  assumes "err j = Some e"
  shows "Get unrep j keys = j
       \<and> foldl (Get unrep) j kss = j
       \<and> snd (String sprint j) = Some e
       \<and> snd (IntV unrep j) = Some e
       \<and> snd (Float64 parseFloat ofInt j) = Some e
       \<and> snd (Bool j) = Some e
       \<and> snd (Array j) = Some e
       \<and> snd (Object j) = Some e"
  using assms
  by (simp add: Get_failed_receiver foldl_Get_failed String_def IntV_def Float64_def Bool_def
      Array_def Object_def)

theorem sticky_propagation_witness:
  "err (Get unrep_amd64 (Valid (GMap [])) [GString ''user'']) =
     Some (JSONError ''Get''
       (Some (Errorf ''key %q not found at position %d'' [GString ''user'', GInt 0])))
   \<and> Get unrep_amd64 (Get unrep_amd64 (Valid (GMap [])) [GString ''user'']) [GString ''name'', GInt 3] =
     Get unrep_amd64 (Valid (GMap [])) [GString ''user'']
   \<and> snd (IntV unrep_amd64 (Get unrep_amd64 (Valid (GMap [])) [GString ''user''])) =
     Some (JSONError ''Get''
       (Some (Errorf ''key %q not found at position %d'' [GString ''user'', GInt 0])))
   \<and> snd (Object (Get unrep_amd64 (Valid (GMap [])) [GString ''user''])) =
     Some (JSONError ''Get''
       (Some (Errorf ''key %q not found at position %d'' [GString ''user'', GInt 0])))"
proof -
  let ?j = "Get unrep_amd64 (Valid (GMap [])) [GString ''user'']"
  let ?e = "JSONError ''Get''
    (Some (Errorf ''key %q not found at position %d'' [GString ''user'', GInt 0]))"
  have h: "err ?j = Some ?e"
    by (simp add: Get_def Valid_def failed_def)
  from sticky_propagation [OF h, of unrep_amd64 "[GString ''name'', GInt 3]"] h
  show ?thesis by simp
qed

subsection \<open>The default-returning string accessor\<close>

text \<open>
  C3. On a valid \<^verbatim>\<open>JSONValue\<close> wrapping a string, \<^verbatim>\<open>StringOr\<close> returns the default when
  the string is empty and the string itself otherwise; it also returns the default on
  every failed receiver, so a present empty string and a failed value give the same
  answer. For an object whose key \<^verbatim>\<open>name\<close> holds the empty string,
  \<^verbatim>\<open>Get("name").StringOr("fallback")\<close> is \<^verbatim>\<open>"fallback"\<close>.
\<close>

theorem StringOr_empty_string:
  "(err j = None \<and> data j = GString s \<longrightarrow> StringOr sprint j d = (if s = [] then d else s))
   \<and> (err j \<noteq> None \<longrightarrow> StringOr sprint j d = d)
   \<and> (map_of m ''name'' = Some (GString []) \<longrightarrow>
        StringOr sprint (Get unrep (Valid (GMap m)) [GString ''name'']) ''fallback'' = ''fallback'')"
  by (auto simp: StringOr_def String_def Get_def Valid_def)

theorem StringOr_empty_string_witness:
  "StringOr (\<lambda>v. []) (Valid (GString [])) ''fallback'' = ''fallback''
   \<and> StringOr (\<lambda>v. []) (Valid (GString ''Ann'')) ''fallback'' = ''Ann''
   \<and> StringOr (\<lambda>v. []) (Get unrep_amd64 (Valid (GMap [])) [GString ''name'']) ''fallback'' = ''fallback''
   \<and> StringOr (\<lambda>v. [])
        (Get unrep_amd64 (Valid (GMap [(''name'', GString [])])) [GString ''name'']) ''fallback'' =
      ''fallback''"
  using StringOr_empty_string [of "Valid (GString [])" "[]" "\<lambda>v. []" "''fallback''"
      "[(''name'', GString [])]" unrep_amd64]
    StringOr_empty_string [of "Valid (GString ''Ann'')" "''Ann''" "\<lambda>v. []" "''fallback''"
      "[(''name'', GString [])]" unrep_amd64]
    StringOr_empty_string [of "Get unrep_amd64 (Valid (GMap [])) [GString ''name'']" "[]"
      "\<lambda>v. []" "''fallback''" "[(''name'', GString [])]" unrep_amd64]
  by (simp add: Valid_def Get_def failed_def)

subsection \<open>Null is not missing\<close>

text \<open>
  C6. \<^verbatim>\<open>IsNull\<close> holds exactly when the \<^verbatim>\<open>JSONValue\<close> is in success state and its data is
  \<^verbatim>\<open>nil\<close>; it never holds in failure state. On an object whose key \<open>k\<close> maps to JSON null,
  \<^verbatim>\<open>Get(k).IsNull()\<close> is true; when \<open>k\<close> is absent, \<^verbatim>\<open>Get(k)\<close> is in failure state and
  \<^verbatim>\<open>IsNull\<close> is false.
\<close>

theorem IsNull_iff:
  "(IsNull j \<longleftrightarrow> err j = None \<and> data j = GNil)
   \<and> (err j \<noteq> None \<longrightarrow> \<not> IsNull j)
   \<and> (err j = None \<and> data j = GMap m \<and> map_of m k = Some GNil \<longrightarrow>
        IsNull (Get unrep j [GString k]))
   \<and> (err j = None \<and> data j = GMap m \<and> map_of m k = None \<longrightarrow>
        \<not> IsNull (Get unrep j [GString k]) \<and> err (Get unrep j [GString k]) \<noteq> None)"
  by (auto simp: IsNull_def Get_def failed_def)

theorem IsNull_iff_witness:
  "IsNull (Get unrep_amd64 (Valid (GMap [(''k'', GNil)])) [GString ''k''])
   \<and> \<not> IsNull (Get unrep_amd64 (Valid (GMap [(''k'', GNil)])) [GString ''missing''])
   \<and> err (Get unrep_amd64 (Valid (GMap [(''k'', GNil)])) [GString ''missing'']) \<noteq> None"
  using IsNull_iff [of "Valid (GMap [(''k'', GNil)])" "[(''k'', GNil)]" "''k''" unrep_amd64]
    IsNull_iff [of "Valid (GMap [(''k'', GNil)])" "[(''k'', GNil)]" "''missing''" unrep_amd64]
  by (simp add: Valid_def)

subsection \<open>Raw access\<close>

text \<open>
  C10. \<^verbatim>\<open>Raw\<close> returns \<^verbatim>\<open>nil\<close> on every \<^verbatim>\<open>JSONValue\<close> in failure state and the wrapped data
  unchanged on a \<^verbatim>\<open>JSONValue\<close> in success state. When \<^verbatim>\<open>Get\<close> fails on a valid receiver,
  whatever data the receiver held, the result holds no data and its \<^verbatim>\<open>Raw\<close> is \<^verbatim>\<open>nil\<close>.
\<close>

theorem Raw_failure_nil:
  "(err j \<noteq> None \<longrightarrow> Raw j = GNil)
   \<and> (err j = None \<longrightarrow> Raw j = data j)
   \<and> (err j = None \<and> err (Get unrep j keys) \<noteq> None \<longrightarrow>
        Raw (Get unrep j keys) = GNil \<and> data (Get unrep j keys) = GNil)"
  by (auto simp: Raw_def Get_valid Get_loop_failed_data)

theorem Raw_failure_nil_witness:
  "Raw (JSONValue (GString ''payload'') (Some (ExternalError ''boom''))) = GNil
   \<and> Raw (Valid (GSlice [GBool True])) = GSlice [GBool True]
   \<and> Raw (Get unrep_amd64 (Valid (GSlice [GBool True])) [GInt 1]) = GNil"
  using Raw_failure_nil [of "JSONValue (GString ''payload'') (Some (ExternalError ''boom''))"]
    Raw_failure_nil [of "Valid (GSlice [GBool True])" unrep_amd64 "[GInt 1]"]
  by (simp add: Valid_def Get_def failed_def convertToIndex_def)

subsection \<open>Fail-fast navigation\<close>

lemma Get_loop_append:
  "Get_loop unrep current i (ks @ ks') =
     (if err (Get_loop unrep current i ks) = None
      then Get_loop unrep (data (Get_loop unrep current i ks)) (i + int (length ks)) ks'
      else Get_loop unrep current i ks)"
proof (induction ks arbitrary: current i)
  case Nil
  then show ?case by simp
next
  case (Cons key ks)
  show ?case
  proof (cases "err (Get_loop unrep current i [key]) = None")
    case True
    then obtain child where c: "Get_loop unrep current i [key] = JSONValue child None"
      by (metis JSONValue_valid_eq)
    then have step: "\<And>rest. Get_loop unrep current i (key # rest) = Get_loop unrep child (i + 1) rest"
      by (auto simp: failed_def split: go_value.splits option.splits prod.splits if_splits)
    show ?thesis
      by (simp only: append_Cons step Cons.IH) (simp add: add.assoc)
  next
    case False
    then have stop: "\<And>rest. Get_loop unrep current i (key # rest) = Get_loop unrep current i [key]"
      by (auto simp: failed_def split: go_value.splits option.splits prod.splits if_splits)
    from False show ?thesis
      by (simp only: append_Cons stop [of "ks @ ks'"] stop [of ks]) simp
  qed
qed

lemma Get_loop_stop:
  "err (Get_loop unrep current i [key]) \<noteq> None \<Longrightarrow>
   Get_loop unrep current i (key # rest) = Get_loop unrep current i [key]"
  by (auto simp: failed_def split: go_value.splits option.splits prod.splits if_splits)

lemma Get_loop_step_message:
  assumes "err (Get_loop unrep current i [key]) \<noteq> None"
  shows "\<exists>m. Get_loop unrep current i [key] = failed ''Get'' m \<and>
     (m = Errorf ''cannot access key %v on nil value at position %d'' [key, GInt i]
      \<or> m = Errorf ''key must be string for object access, got %T at position %d'' [key, GInt i]
      \<or> m = Errorf ''key %q not found at position %d'' [key, GInt i]
      \<or> (\<exists>e. m = Errorf ''invalid array index %v at position %d: %v'' [key, GInt i, GError e])
      \<or> (\<exists>idx n. m = Errorf ''array index %d out of bounds (length: %d) at position %d''
                       [GInt idx, GInt n, GInt i])
      \<or> m = Errorf ''cannot access key %v on type %T at position %d'' [key, current, GInt i])"
proof (cases "current = GNil")
  case True
  then show ?thesis by (simp add: failed_def)
next
  case False
  note notnil = this
  show ?thesis
  proof (cases current)
    case (GMap c)
    with assms show ?thesis
      by (cases key) (auto simp: failed_def split: option.splits)
  next
    case (GSlice c)
    with assms show ?thesis
      by (cases "convertToIndex unrep key") (auto simp: failed_def split: option.splits if_splits)
  qed (use notnil in \<open>simp_all add: failed_def\<close>)
qed

lemma Get_first_failure:
  assumes "err j = None" and "err (Get unrep j keys) \<noteq> None"
  shows "\<exists>ks k rest. keys = ks @ k # rest \<and> err (Get unrep j ks) = None
           \<and> err (Get unrep j (ks @ [k])) \<noteq> None"
  using assms(2)
proof (induction keys rule: rev_induct)
  case Nil
  with assms(1) show ?case by (simp add: Get_def)
next
  case (snoc k ks)
  show ?case
  proof (cases "err (Get unrep j ks) = None")
    case True
    with snoc.prems show ?thesis by blast
  next
    case False
    from snoc.IH [OF False] obtain ks0 k0 rest0 where
      "ks = ks0 @ k0 # rest0" "err (Get unrep j ks0) = None" "err (Get unrep j (ks0 @ [k0])) \<noteq> None"
      by blast
    then have "ks @ [k] = ks0 @ k0 # (rest0 @ [k])" by simp
    with \<open>err (Get unrep j ks0) = None\<close> \<open>err (Get unrep j (ks0 @ [k0])) \<noteq> None\<close>
    show ?thesis by blast
  qed
qed

lemma Get_stops_at_first_failure:
  "(err j = None \<and> err (Get unrep j ks) = None \<and> err (Get unrep j (ks @ [k])) \<noteq> None \<longrightarrow>
      Get unrep j (ks @ k # rest) = Get unrep j (ks @ [k])
      \<and> (\<exists>m. Get unrep j (ks @ k # rest) = failed ''Get'' m \<and>
           (m = Errorf ''cannot access key %v on nil value at position %d''
                  [k, GInt (int (length ks))]
            \<or> m = Errorf ''key must be string for object access, got %T at position %d''
                  [k, GInt (int (length ks))]
            \<or> m = Errorf ''key %q not found at position %d'' [k, GInt (int (length ks))]
            \<or> (\<exists>e. m = Errorf ''invalid array index %v at position %d: %v''
                  [k, GInt (int (length ks)), GError e])
            \<or> (\<exists>idx n. m = Errorf ''array index %d out of bounds (length: %d) at position %d''
                  [GInt idx, GInt n, GInt (int (length ks))])
            \<or> m = Errorf ''cannot access key %v on type %T at position %d''
                  [k, data (Get unrep j ks), GInt (int (length ks))])))
   \<and> (err j = None \<and> err (Get unrep j keys) \<noteq> None \<longrightarrow>
        (\<exists>ks k rest. keys = ks @ k # rest \<and> err (Get unrep j ks) = None
           \<and> err (Get unrep j (ks @ [k])) \<noteq> None))"
proof (intro conjI impI)
  assume a: "err j = None \<and> err (Get unrep j ks) = None \<and> err (Get unrep j (ks @ [k])) \<noteq> None"
  let ?n = "data (Get_loop unrep (data j) 0 ks)"
  let ?p = "int (length ks)"
  from a have valid: "err j = None" by simp
  note gv = Get_valid [OF valid]
  from a have pre: "err (Get_loop unrep (data j) 0 ks) = None"
    by (simp add: gv)
  then have one: "Get unrep j (ks @ [k]) = Get_loop unrep ?n ?p [k]"
    by (simp add: gv Get_loop_append)
  from pre have more: "Get unrep j (ks @ k # rest) = Get_loop unrep ?n ?p (k # rest)"
    by (simp add: gv Get_loop_append)
  from a one have fails: "err (Get_loop unrep ?n ?p [k]) \<noteq> None" by simp
  have "Get unrep j (ks @ k # rest) = Get_loop unrep ?n ?p [k]"
    using more Get_loop_stop [OF fails, of rest] by (rule trans)
  then show same: "Get unrep j (ks @ k # rest) = Get unrep j (ks @ [k])"
    using one by (rule trans_sym)
  have n: "data (Get unrep j ks) = ?n" by (simp add: gv)
  from Get_loop_step_message [OF fails]
  show "\<exists>m. Get unrep j (ks @ k # rest) = failed ''Get'' m \<and>
           (m = Errorf ''cannot access key %v on nil value at position %d''
                  [k, GInt (int (length ks))]
            \<or> m = Errorf ''key must be string for object access, got %T at position %d''
                  [k, GInt (int (length ks))]
            \<or> m = Errorf ''key %q not found at position %d'' [k, GInt (int (length ks))]
            \<or> (\<exists>e. m = Errorf ''invalid array index %v at position %d: %v''
                  [k, GInt (int (length ks)), GError e])
            \<or> (\<exists>idx n. m = Errorf ''array index %d out of bounds (length: %d) at position %d''
                  [GInt idx, GInt n, GInt (int (length ks))])
            \<or> m = Errorf ''cannot access key %v on type %T at position %d''
                  [k, data (Get unrep j ks), GInt (int (length ks))])"
    by (simp only: same one n)
next
  assume "err j = None \<and> err (Get unrep j keys) \<noteq> None"
  then show "\<exists>ks k rest. keys = ks @ k # rest \<and> err (Get unrep j ks) = None
           \<and> err (Get unrep j (ks @ [k])) \<noteq> None"
    using Get_first_failure by blast
qed

lemma Get_prefix:
  assumes "err j = None" and "Get unrep j ks = JSONValue n None"
  shows "Get unrep j (ks @ rest) = Get_loop unrep n (int (length ks)) rest"
proof -
  from assms have "Get_loop unrep (data j) 0 ks = JSONValue n None"
    by (simp add: Get_valid)
  then show ?thesis
    using assms(1) by (simp add: Get_valid Get_loop_append)
qed

lemma Get_loop_nil:
  "Get_loop unrep GNil i (k # rest) =
     failed ''Get'' (Errorf ''cannot access key %v on nil value at position %d'' [k, GInt i])"
  by simp

lemma Get_loop_object_not_string:
  "\<forall>s. k \<noteq> GString s \<Longrightarrow>
   Get_loop unrep (GMap c) i (k # rest) =
     failed ''Get'' (Errorf ''key must be string for object access, got %T at position %d''
       [k, GInt i])"
  by (cases k) simp_all

lemma Get_loop_object_missing:
  "map_of c s = None \<Longrightarrow>
   Get_loop unrep (GMap c) i (GString s # rest) =
     failed ''Get'' (Errorf ''key %q not found at position %d'' [GString s, GInt i])"
  by simp

lemma Get_loop_object_member:
  "map_of c s = Some child \<Longrightarrow>
   Get_loop unrep (GMap c) i (GString s # rest) = Get_loop unrep child (i + 1) rest"
  by simp

lemma Get_loop_array_invalid:
  "snd (convertToIndex unrep k) = Some e \<Longrightarrow>
   Get_loop unrep (GSlice xs) i (k # rest) =
     failed ''Get'' (Errorf ''invalid array index %v at position %d: %v'' [k, GInt i, GError e])"
  by (cases "convertToIndex unrep k") simp

lemma Get_loop_array_bounds:
  "convertToIndex unrep k = (idx, None) \<Longrightarrow> idx < 0 \<or> int (length xs) \<le> idx \<Longrightarrow>
   Get_loop unrep (GSlice xs) i (k # rest) =
     failed ''Get'' (Errorf ''array index %d out of bounds (length: %d) at position %d''
       [GInt idx, GInt (int (length xs)), GInt i])"
  by auto

lemma Get_loop_array_element:
  "convertToIndex unrep k = (idx, None) \<Longrightarrow> 0 \<le> idx \<Longrightarrow> idx < int (length xs) \<Longrightarrow>
   Get_loop unrep (GSlice xs) i (k # rest) = Get_loop unrep (xs ! nat idx) (i + 1) rest"
  by auto

lemma Get_loop_scalar:
  "n \<noteq> GNil \<Longrightarrow> \<forall>c. n \<noteq> GMap c \<Longrightarrow> \<forall>xs. n \<noteq> GSlice xs \<Longrightarrow>
   Get_loop unrep n i (k # rest) =
     failed ''Get'' (Errorf ''cannot access key %v on type %T at position %d'' [k, n, GInt i])"
  by (cases n) simp_all

lemma Get_step_nil:
  "err j = None \<and> Get unrep j ks = JSONValue GNil None \<longrightarrow>
      Get unrep j (ks @ k # rest) =
        failed ''Get''
          (Errorf ''cannot access key %v on nil value at position %d'' [k, GInt (int (length ks))])"
  by (auto simp: Get_prefix Get_loop_nil simp del: Get_loop.simps(2))

lemma Get_step_object_not_string:
  "err j = None \<and> Get unrep j ks = JSONValue (GMap c) None \<and> (\<forall>s. k \<noteq> GString s) \<longrightarrow>
      Get unrep j (ks @ k # rest) =
        failed ''Get''
          (Errorf ''key must be string for object access, got %T at position %d''
             [k, GInt (int (length ks))])"
  by (auto simp: Get_prefix Get_loop_object_not_string simp del: Get_loop.simps(2))

lemma Get_step_object_missing:
  "err j = None \<and> Get unrep j ks = JSONValue (GMap c) None \<and> map_of c s = None \<longrightarrow>
      Get unrep j (ks @ GString s # rest) =
        failed ''Get''
          (Errorf ''key %q not found at position %d'' [GString s, GInt (int (length ks))])"
  by (auto simp: Get_prefix Get_loop_object_missing simp del: Get_loop.simps(2))

lemma Get_step_object_member:
  "err j = None \<and> Get unrep j ks = JSONValue (GMap c) None \<and> map_of c s = Some child \<longrightarrow>
      Get unrep j (ks @ [GString s]) = JSONValue child None"
  by (auto simp: Get_prefix Get_loop_object_member simp del: Get_loop.simps(2))

lemma Get_step_array_invalid:
  "err j = None \<and> Get unrep j ks = JSONValue (GSlice xs) None \<and> snd (convertToIndex unrep k) = Some e \<longrightarrow>
      Get unrep j (ks @ k # rest) =
        failed ''Get''
          (Errorf ''invalid array index %v at position %d: %v''
             [k, GInt (int (length ks)), GError e])"
  by (auto simp: Get_prefix Get_loop_array_invalid simp del: Get_loop.simps(2))

lemma Get_step_array_bounds:
  "err j = None \<and> Get unrep j ks = JSONValue (GSlice xs) None \<and> convertToIndex unrep k = (idx, None)
      \<and> (idx < 0 \<or> int (length xs) \<le> idx) \<longrightarrow>
      Get unrep j (ks @ k # rest) =
        failed ''Get''
          (Errorf ''array index %d out of bounds (length: %d) at position %d''
             [GInt idx, GInt (int (length xs)), GInt (int (length ks))])"
  by (auto simp: Get_prefix Get_loop_array_bounds simp del: Get_loop.simps(2))

lemma Get_step_array_element:
  "err j = None \<and> Get unrep j ks = JSONValue (GSlice xs) None \<and> convertToIndex unrep k = (idx, None)
      \<and> 0 \<le> idx \<and> idx < int (length xs) \<longrightarrow>
      Get unrep j (ks @ [k]) = JSONValue (xs ! nat idx) None"
  by (auto simp: Get_prefix Get_loop_array_element simp del: Get_loop.simps(2))

lemma Get_step_scalar:
  "err j = None \<and> Get unrep j ks = JSONValue n None
      \<and> n \<noteq> GNil \<and> (\<forall>c. n \<noteq> GMap c) \<and> (\<forall>xs. n \<noteq> GSlice xs) \<longrightarrow>
      Get unrep j (ks @ k # rest) =
        failed ''Get''
          (Errorf ''cannot access key %v on type %T at position %d''
             [k, n, GInt (int (length ks))])"
  by (auto simp: Get_prefix Get_loop_scalar simp del: Get_loop.simps(2))

lemma Get_empty_path:
  "err j = None \<longrightarrow> Get unrep j [] = j"
  by (simp add: Get_def)

lemma Get_example_first_absent:
  "err j = None \<and> data j = GMap m \<and> map_of m a = None \<longrightarrow>
      Get unrep j (GString a # rest) =
        failed ''Get''
          (Errorf ''key %q not found at position %d'' [GString a, GInt 0])"
  by (auto simp: Get_valid Get_loop_nil Get_loop_object_missing Get_loop_object_member
      Get_loop_array_invalid Get_loop_array_bounds Get_loop_array_element Get_loop_scalar
      simp del: Get_loop.simps(2))

lemma Get_example_second_absent:
  "err j = None \<and> data j = GMap m \<and> map_of m a = Some (GMap m') \<and> map_of m' b = None \<longrightarrow>
      Get unrep j (GString a # GString b # rest) =
        failed ''Get''
          (Errorf ''key %q not found at position %d'' [GString b, GInt 1])"
  by (auto simp: Get_valid Get_loop_nil Get_loop_object_missing Get_loop_object_member
      Get_loop_array_invalid Get_loop_array_bounds Get_loop_array_element Get_loop_scalar
      simp del: Get_loop.simps(2))

lemma Get_example_second_on_null:
  "err j = None \<and> data j = GMap m \<and> map_of m a = Some GNil \<longrightarrow>
      Get unrep j (GString a # k # rest) =
        failed ''Get''
          (Errorf ''cannot access key %v on nil value at position %d'' [k, GInt 1])"
  by (auto simp: Get_valid Get_loop_nil Get_loop_object_missing Get_loop_object_member
      Get_loop_array_invalid Get_loop_array_bounds Get_loop_array_element Get_loop_scalar
      simp del: Get_loop.simps(2))

lemma Get_example_second_on_scalar:
  "err j = None \<and> data j = GMap m \<and> map_of m a = Some n
      \<and> n \<noteq> GNil \<and> (\<forall>c. n \<noteq> GMap c) \<and> (\<forall>xs. n \<noteq> GSlice xs) \<longrightarrow>
      Get unrep j (GString a # k # rest) =
        failed ''Get''
          (Errorf ''cannot access key %v on type %T at position %d'' [k, n, GInt 1])"
  by (auto simp: Get_valid Get_loop_nil Get_loop_object_missing Get_loop_object_member
      Get_loop_array_invalid Get_loop_array_bounds Get_loop_array_element Get_loop_scalar
      simp del: Get_loop.simps(2))

lemma Get_example_third_absent:
  "err j = None \<and> data j = GMap m \<and> map_of m a = Some (GMap m') \<and> map_of m' b = Some (GMap m'')
      \<and> map_of m'' c' = None \<longrightarrow>
      Get unrep j (GString a # GString b # GString c' # rest) =
        failed ''Get''
          (Errorf ''key %q not found at position %d'' [GString c', GInt 2])"
  by (auto simp: Get_valid Get_loop_nil Get_loop_object_missing Get_loop_object_member
      Get_loop_array_invalid Get_loop_array_bounds Get_loop_array_element Get_loop_scalar
      simp del: Get_loop.simps(2))

text \<open>
  C2. \<^verbatim>\<open>Get\<close> walks the keys left to right, one node per key. With no key it returns the
  receiver. When the keys \<open>ks\<close> have led to a node \<open>n\<close>, the next key \<open>k\<close> is decided by \<open>n\<close>
  and \<open>k\<close> alone: on \<^verbatim>\<open>nil\<close>, on an object with a key that is no string or that the object
  lacks, on an array with a key that does not convert or lies outside the bounds, and on a
  scalar, \<^verbatim>\<open>Get\<close> fails with the message of that case, whose position operand is the length
  of \<open>ks\<close>, and the result is the same whatever keys follow \<open>k\<close>: they are never looked at.
  Otherwise \<^verbatim>\<open>Get\<close> moves to the member or element selected. Every failure of \<^verbatim>\<open>Get\<close> on a
  valid receiver comes from such a first failing key. On every tree where \<^verbatim>\<open>a\<close> exists and
  \<^verbatim>\<open>a.b\<close> does not (\<^verbatim>\<open>a\<close> is an object without \<^verbatim>\<open>b\<close>, or null, or a scalar),
  \<^verbatim>\<open>Get("a", "b", ...)\<close> reports position 1, whatever follows; when \<^verbatim>\<open>a\<close> itself is absent
  it reports position 0, and when only \<^verbatim>\<open>a.b.c\<close> is absent, position 2.
\<close>

theorem Get_fail_fast:
  "(err j = None \<and> err (Get unrep j ks) = None \<and> err (Get unrep j (ks @ [k])) \<noteq> None \<longrightarrow>
      Get unrep j (ks @ k # rest) = Get unrep j (ks @ [k])
      \<and> (\<exists>m. Get unrep j (ks @ k # rest) = failed ''Get'' m \<and>
           (m = Errorf ''cannot access key %v on nil value at position %d''
                  [k, GInt (int (length ks))]
            \<or> m = Errorf ''key must be string for object access, got %T at position %d''
                  [k, GInt (int (length ks))]
            \<or> m = Errorf ''key %q not found at position %d'' [k, GInt (int (length ks))]
            \<or> (\<exists>e. m = Errorf ''invalid array index %v at position %d: %v''
                  [k, GInt (int (length ks)), GError e])
            \<or> (\<exists>idx n. m = Errorf ''array index %d out of bounds (length: %d) at position %d''
                  [GInt idx, GInt n, GInt (int (length ks))])
            \<or> m = Errorf ''cannot access key %v on type %T at position %d''
                  [k, data (Get unrep j ks), GInt (int (length ks))])))
   \<and> (err j = None \<and> err (Get unrep j keys) \<noteq> None \<longrightarrow>
        (\<exists>ks k rest. keys = ks @ k # rest \<and> err (Get unrep j ks) = None
           \<and> err (Get unrep j (ks @ [k])) \<noteq> None))
   \<and> (err j = None \<longrightarrow> Get unrep j [] = j)
   \<and> (err j = None \<and> Get unrep j ks = JSONValue GNil None \<longrightarrow>
      Get unrep j (ks @ k # rest) =
        failed ''Get''
          (Errorf ''cannot access key %v on nil value at position %d'' [k, GInt (int (length ks))]))
   \<and> (err j = None \<and> Get unrep j ks = JSONValue (GMap c) None \<and> (\<forall>s. k \<noteq> GString s) \<longrightarrow>
      Get unrep j (ks @ k # rest) =
        failed ''Get''
          (Errorf ''key must be string for object access, got %T at position %d''
             [k, GInt (int (length ks))]))
   \<and> (err j = None \<and> Get unrep j ks = JSONValue (GMap c) None \<and> map_of c s = None \<longrightarrow>
      Get unrep j (ks @ GString s # rest) =
        failed ''Get''
          (Errorf ''key %q not found at position %d'' [GString s, GInt (int (length ks))]))
   \<and> (err j = None \<and> Get unrep j ks = JSONValue (GMap c) None \<and> map_of c s = Some child \<longrightarrow>
      Get unrep j (ks @ [GString s]) = JSONValue child None)
   \<and> (err j = None \<and> Get unrep j ks = JSONValue (GSlice xs) None \<and> snd (convertToIndex unrep k) = Some e \<longrightarrow>
      Get unrep j (ks @ k # rest) =
        failed ''Get''
          (Errorf ''invalid array index %v at position %d: %v''
             [k, GInt (int (length ks)), GError e]))
   \<and> (err j = None \<and> Get unrep j ks = JSONValue (GSlice xs) None \<and> convertToIndex unrep k = (idx, None)
      \<and> (idx < 0 \<or> int (length xs) \<le> idx) \<longrightarrow>
      Get unrep j (ks @ k # rest) =
        failed ''Get''
          (Errorf ''array index %d out of bounds (length: %d) at position %d''
             [GInt idx, GInt (int (length xs)), GInt (int (length ks))]))
   \<and> (err j = None \<and> Get unrep j ks = JSONValue (GSlice xs) None \<and> convertToIndex unrep k = (idx, None)
      \<and> 0 \<le> idx \<and> idx < int (length xs) \<longrightarrow>
      Get unrep j (ks @ [k]) = JSONValue (xs ! nat idx) None)
   \<and> (err j = None \<and> Get unrep j ks = JSONValue n None
      \<and> n \<noteq> GNil \<and> (\<forall>c. n \<noteq> GMap c) \<and> (\<forall>xs. n \<noteq> GSlice xs) \<longrightarrow>
      Get unrep j (ks @ k # rest) =
        failed ''Get''
          (Errorf ''cannot access key %v on type %T at position %d''
             [k, n, GInt (int (length ks))]))
   \<and> (err j = None \<and> data j = GMap m \<and> map_of m a = None \<longrightarrow>
      Get unrep j (GString a # rest) =
        failed ''Get''
          (Errorf ''key %q not found at position %d'' [GString a, GInt 0]))
   \<and> (err j = None \<and> data j = GMap m \<and> map_of m a = Some (GMap m') \<and> map_of m' b = None \<longrightarrow>
      Get unrep j (GString a # GString b # rest) =
        failed ''Get''
          (Errorf ''key %q not found at position %d'' [GString b, GInt 1]))
   \<and> (err j = None \<and> data j = GMap m \<and> map_of m a = Some GNil \<longrightarrow>
      Get unrep j (GString a # k # rest) =
        failed ''Get''
          (Errorf ''cannot access key %v on nil value at position %d'' [k, GInt 1]))
   \<and> (err j = None \<and> data j = GMap m \<and> map_of m a = Some n
      \<and> n \<noteq> GNil \<and> (\<forall>c. n \<noteq> GMap c) \<and> (\<forall>xs. n \<noteq> GSlice xs) \<longrightarrow>
      Get unrep j (GString a # k # rest) =
        failed ''Get''
          (Errorf ''cannot access key %v on type %T at position %d'' [k, n, GInt 1]))
   \<and> (err j = None \<and> data j = GMap m \<and> map_of m a = Some (GMap m') \<and> map_of m' b = Some (GMap m'')
      \<and> map_of m'' c' = None \<longrightarrow>
      Get unrep j (GString a # GString b # GString c' # rest) =
        failed ''Get''
          (Errorf ''key %q not found at position %d'' [GString c', GInt 2]))"
  by (intro conjI)
    (rule Get_stops_at_first_failure [THEN conjunct1],
     rule Get_stops_at_first_failure [THEN conjunct2],
     rule Get_empty_path,
     rule Get_step_nil,
     rule Get_step_object_not_string,
     rule Get_step_object_missing,
     rule Get_step_object_member,
     rule Get_step_array_invalid,
     rule Get_step_array_bounds,
     rule Get_step_array_element,
     rule Get_step_scalar,
     rule Get_example_first_absent,
     rule Get_example_second_absent,
     rule Get_example_second_on_null,
     rule Get_example_second_on_scalar,
     rule Get_example_third_absent)

theorem Get_fail_fast_witness:
  "Get unrep_amd64 (Valid (GMap [(''a'', GMap [(''x'', GBool True)])]))
       [GString ''a'', GString ''b'', GString ''c''] =
     failed ''Get'' (Errorf ''key %q not found at position %d'' [GString ''b'', GInt 1])
   \<and> Get unrep_amd64 (Valid (GMap [(''x'', GBool True)]))
       [GString ''a'', GString ''b'', GString ''c''] =
     failed ''Get'' (Errorf ''key %q not found at position %d'' [GString ''a'', GInt 0])
   \<and> Get unrep_amd64 (Valid (GMap [(''a'', GNil)])) [GString ''a'', GString ''b'', GString ''c''] =
     failed ''Get''
       (Errorf ''cannot access key %v on nil value at position %d'' [GString ''b'', GInt 1])
   \<and> Get unrep_amd64 (Valid (GMap [(''a'', GMap [(''b'', GMap [])])]))
       [GString ''a'', GString ''b'', GString ''c''] =
     failed ''Get'' (Errorf ''key %q not found at position %d'' [GString ''c'', GInt 2])
   \<and> Get unrep_amd64 (Valid (GMap [(''a'', GMap [])])) [GString ''a'', GString ''b'', GString ''c''] =
     Get unrep_amd64 (Valid (GMap [(''a'', GMap [])])) [GString ''a'', GString ''b'']"
proof -
  note t = Get_fail_fast [where unrep = unrep_amd64 and a = "''a''" and b = "''b''"
      and c' = "''c''" and k = "GString ''b''" and rest = "[GString ''c'']"]
  from t [where j = "Valid (GMap [(''a'', GMap [(''x'', GBool True)])])"
      and m = "[(''a'', GMap [(''x'', GBool True)])]" and m' = "[(''x'', GBool True)]"]
  have r1: "Get unrep_amd64 (Valid (GMap [(''a'', GMap [(''x'', GBool True)])]))
       [GString ''a'', GString ''b'', GString ''c''] =
     failed ''Get'' (Errorf ''key %q not found at position %d'' [GString ''b'', GInt 1])"
    by (simp add: Valid_def)
  from Get_fail_fast [where unrep = unrep_amd64 and a = "''a''"
      and rest = "[GString ''b'', GString ''c'']" and j = "Valid (GMap [(''x'', GBool True)])"
      and m = "[(''x'', GBool True)]"]
  have r2: "Get unrep_amd64 (Valid (GMap [(''x'', GBool True)]))
       [GString ''a'', GString ''b'', GString ''c''] =
     failed ''Get'' (Errorf ''key %q not found at position %d'' [GString ''a'', GInt 0])"
    by (simp add: Valid_def)
  from t [where j = "Valid (GMap [(''a'', GNil)])" and m = "[(''a'', GNil)]"]
  have r3: "Get unrep_amd64 (Valid (GMap [(''a'', GNil)])) [GString ''a'', GString ''b'', GString ''c''] =
     failed ''Get''
       (Errorf ''cannot access key %v on nil value at position %d'' [GString ''b'', GInt 1])"
    by (simp add: Valid_def)
  from Get_fail_fast [where unrep = unrep_amd64 and a = "''a''" and b = "''b''"
      and c' = "''c''" and rest = "[]" and j = "Valid (GMap [(''a'', GMap [(''b'', GMap [])])])"
      and m = "[(''a'', GMap [(''b'', GMap [])])]" and m' = "[(''b'', GMap [])]" and m'' = "[]"]
  have r4: "Get unrep_amd64 (Valid (GMap [(''a'', GMap [(''b'', GMap [])])]))
       [GString ''a'', GString ''b'', GString ''c''] =
     failed ''Get'' (Errorf ''key %q not found at position %d'' [GString ''c'', GInt 2])"
    by (simp add: Valid_def)
  from Get_fail_fast [where unrep = unrep_amd64 and j = "Valid (GMap [(''a'', GMap [])])"
      and ks = "[GString ''a'']" and k = "GString ''b''" and rest = "[GString ''c'']"]
  have r5: "Get unrep_amd64 (Valid (GMap [(''a'', GMap [])])) [GString ''a'', GString ''b'', GString ''c''] =
     Get unrep_amd64 (Valid (GMap [(''a'', GMap [])])) [GString ''a'', GString ''b'']"
    by (simp add: Valid_def Get_def failed_def)
  from r1 r2 r3 r4 r5 show ?thesis by blast
qed

subsection \<open>Array bounds\<close>

text \<open>
  C7. On a valid receiver wrapping an array of length \<open>N\<close>, \<^verbatim>\<open>Get\<close> with the index \<open>N - 1\<close>
  succeeds and returns the last element (the array then has one: \<open>N \<ge> 1\<close>), and \<^verbatim>\<open>Get\<close>
  with the index \<open>N\<close> fails with the out-of-bounds message, whose length operand is \<open>N\<close>.
\<close>

theorem array_index_boundary:
  "(err j = None \<and> data j = GSlice xs \<and> xs \<noteq> [] \<longrightarrow>
      Get unrep j [GInt (int (length xs) - 1)] = JSONValue (last xs) None)
   \<and> (err j = None \<and> data j = GSlice xs \<longrightarrow>
      Get unrep j (GInt (int (length xs)) # rest) =
        failed ''Get'' (Errorf ''array index %d out of bounds (length: %d) at position %d''
          [GInt (int (length xs)), GInt (int (length xs)), GInt 0]))"
proof (intro conjI impI)
  assume a: "err j = None \<and> data j = GSlice xs \<and> xs \<noteq> []"
  then have "nat (int (length xs) - 1) = length xs - 1" by simp
  moreover from a have "\<not> int (length xs) - 1 < 0"
    by (cases xs) simp_all
  ultimately show "Get unrep j [GInt (int (length xs) - 1)] = JSONValue (last xs) None"
    using a by (simp add: Get_def convertToIndex_def last_conv_nth)
next
  assume "err j = None \<and> data j = GSlice xs"
  then show "Get unrep j (GInt (int (length xs)) # rest) =
        failed ''Get'' (Errorf ''array index %d out of bounds (length: %d) at position %d''
          [GInt (int (length xs)), GInt (int (length xs)), GInt 0])"
    by (simp add: Get_def convertToIndex_def)
qed

theorem array_index_boundary_witness:
  "Get unrep_amd64 (Valid (GSlice [GString ''a'', GString ''b''])) [GInt 1] = Valid (GString ''b'')
   \<and> Get unrep_amd64 (Valid (GSlice [GString ''a'', GString ''b''])) [GInt 2] =
       failed ''Get'' (Errorf ''array index %d out of bounds (length: %d) at position %d''
          [GInt 2, GInt 2, GInt 0])
   \<and> Get unrep_amd64 (Valid (GSlice [])) [GInt 0] =
       failed ''Get'' (Errorf ''array index %d out of bounds (length: %d) at position %d''
          [GInt 0, GInt 0, GInt 0])"
  using array_index_boundary [of "Valid (GSlice [GString ''a'', GString ''b''])"
      "[GString ''a'', GString ''b'']" unrep_amd64 "[]"]
    array_index_boundary [of "Valid (GSlice [])" "[]" unrep_amd64 "[]"]
  by (simp add: Valid_def)

subsection \<open>Operation tags of coercion errors\<close>

text \<open>
  C5, as stated, fails: a coercion called on a failed receiver returns the receiver's error,
  whose operation tag is that of the operation that failed first. Here \<^verbatim>\<open>Int\<close> after a
  failed \<^verbatim>\<open>Get\<close> returns the error tagged \<^verbatim>\<open>Get\<close>, not \<^verbatim>\<open>Int\<close>.
\<close>

theorem coercion_tag_counterexample:
  "snd (IntV unrep_amd64 (Get unrep_amd64 (Valid (GMap [(''name'', GString ''John'')])) [GString ''age''])) =
     Some (JSONError ''Get''
       (Some (Errorf ''key %q not found at position %d'' [GString ''age'', GInt 0])))
   \<and> map_option Op
        (snd (IntV unrep_amd64
           (Get unrep_amd64 (Valid (GMap [(''name'', GString ''John'')])) [GString ''age''])))
      \<noteq> Some ''Int''"
  by (simp add: IntV_def Get_def Valid_def failed_def)

text \<open>
  C5, amended. \<^verbatim>\<open>String\<close>, \<^verbatim>\<open>Int\<close>, \<^verbatim>\<open>Float64\<close> and \<^verbatim>\<open>Bool\<close> on a receiver in failure state
  return the receiver's error unchanged, so its operation tag is the tag of the operation
  that failed first. The method's own name is the tag only of the errors it raises itself
  on a valid receiver; \<^verbatim>\<open>String\<close> raises none.
\<close>

theorem coercion_error_tag:
  "(err j \<noteq> None \<longrightarrow>
      snd (String sprint j) = err j \<and> snd (IntV unrep j) = err j
      \<and> snd (Float64 parseFloat ofInt j) = err j \<and> snd (Bool j) = err j)
   \<and> (err j = Some (JSONError op m) \<longrightarrow>
      map_option Op (snd (String sprint j)) = Some op
      \<and> map_option Op (snd (IntV unrep j)) = Some op
      \<and> map_option Op (snd (Float64 parseFloat ofInt j)) = Some op
      \<and> map_option Op (snd (Bool j)) = Some op)
   \<and> (err j = None \<longrightarrow> snd (String sprint j) = None)
   \<and> (err j = None \<and> snd (IntV unrep j) = Some e \<longrightarrow> (\<exists>m'. e = JSONError ''Int'' (Some m')))
   \<and> (err j = None \<and> snd (Float64 parseFloat ofInt j) = Some e \<longrightarrow>
        (\<exists>m'. e = JSONError ''Float64'' (Some m')))
   \<and> (err j = None \<and> snd (Bool j) = Some e \<longrightarrow> (\<exists>m'. e = JSONError ''Bool'' (Some m')))"
proof (intro conjI impI)
  assume "err j = None \<and> snd (IntV unrep j) = Some e"
  then show "\<exists>m'. e = JSONError ''Int'' (Some m')"
    by (auto simp: IntV_def split: go_value.splits prod.splits option.splits)
next
  assume "err j = None \<and> snd (Float64 parseFloat ofInt j) = Some e"
  then show "\<exists>m'. e = JSONError ''Float64'' (Some m')"
    by (auto simp: Float64_def split: go_value.splits prod.splits option.splits)
next
  assume "err j = None \<and> snd (Bool j) = Some e"
  then show "\<exists>m'. e = JSONError ''Bool'' (Some m')"
    by (auto simp: Bool_def split: go_value.splits prod.splits option.splits)
next
  assume "err j = None"
  then show "snd (String sprint j) = None"
    by (auto simp: String_def split: go_value.splits)
qed (auto simp: String_def IntV_def Float64_def Bool_def)

theorem coercion_error_tag_witness:
  "map_option Op (snd (IntV unrep_amd64 (Get unrep_amd64 (Valid (GMap [])) [GString ''age'']))) =
     Some ''Get''
   \<and> map_option Op (snd (Bool (Get unrep_amd64 (Valid (GMap [])) [GString ''age'']))) = Some ''Get''
   \<and> snd (IntV unrep_amd64 (Valid (GString ''John''))) =
     Some (JSONError ''Int'' (Some (Errorf ''cannot convert string %q to int'' [GString ''John''])))"
proof -
  let ?j = "Get unrep_amd64 (Valid (GMap [])) [GString ''age'']"
  have h: "err ?j = Some (JSONError ''Get''
      (Some (Errorf ''key %q not found at position %d'' [GString ''age'', GInt 0])))"
    by (simp add: Get_def Valid_def failed_def)
  have v: "snd (IntV unrep_amd64 (Valid (GString ''John''))) =
     Some (JSONError ''Int'' (Some (Errorf ''cannot convert string %q to int'' [GString ''John''])))"
    by (simp add: IntV_def Valid_def Atoi_def is_digit_def)
  from coercion_error_tag [of ?j "\<lambda>v. []" unrep_amd64 "\<lambda>s. (0, None)" "\<lambda>n. 0" "''Get''"
      "Some (Errorf ''key %q not found at position %d'' [GString ''age'', GInt 0])"] h
    coercion_error_tag [of "Valid (GString ''John'')" "\<lambda>v. []" unrep_amd64 "\<lambda>s. (0, None)" "\<lambda>n. 0"
      "''Get''" None
      "JSONError ''Int'' (Some (Errorf ''cannot convert string %q to int'' [GString ''John'']))"] v
  show ?thesis by simp
qed

subsection \<open>Array indices\<close>

lemma digits_grow:
  "list_all is_digit ds \<Longrightarrow> 0 \<le> n \<Longrightarrow> n \<le> foldl (\<lambda>n c. n * 10 + digit_val c) n ds"
proof (induction ds arbitrary: n)
  case Nil
  then show ?case by simp
next
  case (Cons c ds)
  then have d: "0 \<le> digit_val c" by (simp add: is_digit_def digit_val_def)
  with Cons.prems have "0 \<le> n * 10 + digit_val c" "n \<le> n * 10 + digit_val c" by simp_all
  moreover from Cons.prems have "list_all is_digit ds" by simp
  ultimately have "n * 10 + digit_val c \<le> foldl (\<lambda>n c. n * 10 + digit_val c) (n * 10 + digit_val c) ds"
    using Cons.IH by blast
  with \<open>n \<le> n * 10 + digit_val c\<close> show ?case by simp
qed

lemma ParseUint_ok_iff:
  "0 \<le> n \<Longrightarrow> n \<le> maxUint64 \<Longrightarrow>
   snd (ParseUint ds n) = None \<longleftrightarrow>
     list_all is_digit ds \<and> foldl (\<lambda>n c. n * 10 + digit_val c) n ds \<le> maxUint64"
proof (induction ds arbitrary: n)
  case Nil
  then show ?case by simp
next
  case (Cons c ds)
  show ?case
  proof (cases "is_digit c")
    case False
    then show ?thesis by simp
  next
    case True
    then have d: "0 \<le> digit_val c" by (simp add: is_digit_def digit_val_def)
    with Cons.prems have nn: "0 \<le> n * 10 + digit_val c" by simp
    show ?thesis
    proof (cases "maxUint64 < n * 10 + digit_val c")
      case over: True
      have "list_all is_digit ds \<Longrightarrow>
          maxUint64 < foldl (\<lambda>n c. n * 10 + digit_val c) (n * 10 + digit_val c) ds"
        using digits_grow [OF _ nn, of ds] over by simp
      with True over show ?thesis by auto
    next
      case False
      then have "n * 10 + digit_val c \<le> maxUint64" by simp
      from Cons.IH [OF nn this] True False show ?thesis by simp
    qed
  qed
qed

lemma ParseUint_ok_value:
  "snd (ParseUint ds n) = None \<Longrightarrow> fst (ParseUint ds n) = foldl (\<lambda>n c. n * 10 + digit_val c) n ds"
  by (induction ds arbitrary: n) (auto split: if_splits)

lemma ParseUint_error:
  "snd (ParseUint ds n) = Some e \<Longrightarrow>
   e = ErrSyntax \<or> (e = ErrRange \<and> fst (ParseUint ds n) = maxUint64)"
  by (induction ds arbitrary: n) (auto split: if_splits)

lemma Atoi_tail:
  assumes "ds \<noteq> []"
  shows "(snd (case ParseUint ds 0 of
                (un, e) \<Rightarrow>
                  if e = Some ErrSyntax then (0, Some (NumError ''Atoi'' s ErrSyntax))
                  else if \<not> neg \<and> 2 ^ 63 \<le> un then (2 ^ 63 - 1, Some (NumError ''Atoi'' s ErrRange))
                  else if neg \<and> 2 ^ 63 < un then (- (2 ^ 63), Some (NumError ''Atoi'' s ErrRange))
                  else (if neg then - un else un, None)) = None)
         \<longleftrightarrow> list_all is_digit ds \<and>
             (if neg then decimal_value ds \<le> 2 ^ 63 else decimal_value ds < 2 ^ 63)"
proof (cases "snd (ParseUint ds 0)")
  case None
  have z: "(0::int) \<le> maxUint64" by (simp add: maxUint64_def)
  from None ParseUint_ok_iff [OF _ z, of ds] ParseUint_ok_value [of ds 0]
  have ok: "list_all is_digit ds" "decimal_value ds \<le> maxUint64" "fst (ParseUint ds 0) = decimal_value ds"
    by (simp_all add: decimal_value_def)
  obtain un e where p: "ParseUint ds 0 = (un, e)" by (cases "ParseUint ds 0")
  with None ok have "e = None" "un = decimal_value ds" by simp_all
  with p ok show ?thesis by auto
next
  case (Some e)
  obtain un e' where p: "ParseUint ds 0 = (un, e')" by (cases "ParseUint ds 0")
  with Some have e': "e' = Some e" by simp
  from ParseUint_error [OF Some] p have k: "e = ErrSyntax \<or> (e = ErrRange \<and> un = maxUint64)" by simp
  have z: "(0::int) \<le> maxUint64" by (simp add: maxUint64_def)
  from Some ParseUint_ok_iff [OF _ z, of ds]
  have no: "\<not> (list_all is_digit ds \<and> decimal_value ds \<le> maxUint64)"
    by (simp add: decimal_value_def)
  have lhs: "\<not> (snd (case ParseUint ds 0 of
                (un, e) \<Rightarrow>
                  if e = Some ErrSyntax then (0, Some (NumError ''Atoi'' s ErrSyntax))
                  else if \<not> neg \<and> 2 ^ 63 \<le> un then (2 ^ 63 - 1, Some (NumError ''Atoi'' s ErrRange))
                  else if neg \<and> 2 ^ 63 < un then (- (2 ^ 63), Some (NumError ''Atoi'' s ErrRange))
                  else (if neg then - un else un, None)) = None)"
    using k by (auto simp: p e' maxUint64_def)
  from no have rhs: "\<not> (list_all is_digit ds \<and>
             (if neg then decimal_value ds \<le> 2 ^ 63 else decimal_value ds < 2 ^ 63))"
    by (auto simp: maxUint64_def)
  from lhs rhs show ?thesis by blast
qed

lemma Atoi_ok_iff: "snd (Atoi s) = None \<longleftrightarrow> signed_decimal s"
proof (cases s)
  case Nil
  then show ?thesis by (simp add: Atoi_def signed_decimal_def)
next
  case (Cons c cs)
  show ?thesis
  proof (cases "c = CHR ''-'' \<or> c = CHR ''+''")
    case True
    show ?thesis
    proof (cases "cs = []")
      case True
      with Cons \<open>c = CHR ''-'' \<or> c = CHR ''+''\<close> show ?thesis
        by (auto simp: Atoi_def signed_decimal_def)
    next
      case False
      from Atoi_tail [OF False, of s "c = CHR ''-''"] Cons True False show ?thesis
        by (auto simp: Atoi_def signed_decimal_def Let_def)
    qed
  next
    case False
    have ne: "s \<noteq> []" using Cons by simp
    from Atoi_tail [OF ne, of s False] Cons False show ?thesis
      by (auto simp: Atoi_def signed_decimal_def Let_def)
  qed
qed

lemma ParseUint_digits:
  assumes "list_all is_digit ds" and "decimal_value ds \<le> maxUint64"
  shows "ParseUint ds 0 = (decimal_value ds, None)"
proof -
  have z: "(0::int) \<le> maxUint64" by (simp add: maxUint64_def)
  from assms ParseUint_ok_iff [OF _ z, of ds]
  have n: "snd (ParseUint ds 0) = None" by (simp add: decimal_value_def)
  with ParseUint_ok_value [of ds 0] show ?thesis
    by (cases "ParseUint ds 0") (simp add: decimal_value_def)
qed

lemma Atoi_ok_value: "signed_decimal s \<Longrightarrow> Atoi s = (signed_value s, None)"
proof (cases s)
  case Nil
  assume "signed_decimal s"
  with Nil show ?thesis by (simp add: signed_decimal_def)
next
  case (Cons c cs)
  assume sd: "signed_decimal s"
  from Cons have hs: "s \<noteq> []" "hd s = c" "tl s = cs" by simp_all
  consider (minus) "c = CHR ''-''" | (plus) "c = CHR ''+''" | (digit) "c \<noteq> CHR ''-''" "c \<noteq> CHR ''+''"
    by blast
  then show ?thesis
  proof cases
    case minus
    with sd Cons have d: "cs \<noteq> []" "list_all is_digit cs" "decimal_value cs \<le> 2 ^ 63"
      by (auto simp: signed_decimal_def)
    then have p: "ParseUint cs 0 = (decimal_value cs, None)"
      by (intro ParseUint_digits) (simp_all add: maxUint64_def)
    from Cons minus have sv: "signed_value s = - decimal_value cs"
      by (simp add: signed_value_def)
    from hs minus d p show ?thesis
      by (simp add: Atoi_def Let_def sv)
  next
    case plus
    with sd Cons have d: "cs \<noteq> []" "list_all is_digit cs" "decimal_value cs < 2 ^ 63"
      by (auto simp: signed_decimal_def)
    then have p: "ParseUint cs 0 = (decimal_value cs, None)"
      by (intro ParseUint_digits) (simp_all add: maxUint64_def)
    from Cons plus have sv: "signed_value s = decimal_value cs"
      by (simp add: signed_value_def)
    from hs plus d p show ?thesis
      by (simp add: Atoi_def Let_def sv)
  next
    case digit
    with sd Cons have d: "list_all is_digit s" "decimal_value s < 2 ^ 63"
      by (auto simp: signed_decimal_def)
    then have p: "ParseUint s 0 = (decimal_value s, None)"
      by (intro ParseUint_digits) (simp_all add: maxUint64_def)
    from Cons digit have sv: "signed_value s = decimal_value s"
      by (simp add: signed_value_def)
    from hs digit d(2) p show ?thesis
      by (simp add: Atoi_def Let_def sv)
  qed
qed

text \<open>
  C4, as stated, fails: a key that converts to a negative index is no conversion failure,
  and \<^verbatim>\<open>Get\<close> answers it with the out-of-bounds message; a string with a sign converts
  although it does not consist of digits only.
\<close>

theorem invalid_index_counterexample:
  "Get unrep_amd64 (Valid (GSlice [GString ''a''])) [GInt (- 1)] =
     failed ''Get'' (Errorf ''array index %d out of bounds (length: %d) at position %d''
       [GInt (- 1), GInt 1, GInt 0])
   \<and> Get unrep_amd64 (Valid (GSlice [GString ''a''])) [GString ''-1''] =
     failed ''Get'' (Errorf ''array index %d out of bounds (length: %d) at position %d''
       [GInt (- 1), GInt 1, GInt 0])
   \<and> Get unrep_amd64 (Valid (GSlice [GString ''a''])) [GString ''+0''] = Valid (GString ''a'')"
  by (simp add: Get_def Valid_def failed_def convertToIndex_def Atoi_def is_digit_def
      digit_val_def maxUint64_def)

lemma array_index_at_root:
  "(snd (convertToIndex unrep k) = None \<longleftrightarrow>
      (\<exists>n. k = GInt n) \<or> (\<exists>f. k = GFloat64 f) \<or> (\<exists>s. k = GString s \<and> signed_decimal s))
   \<and> convertToIndex unrep (GInt n) = (n, None)
   \<and> convertToIndex unrep (GFloat64 f) = (float64_to_int unrep f, None)
   \<and> (signed_decimal s \<longrightarrow> convertToIndex unrep (GString s) = (signed_value s, None))
   \<and> (err j = None \<and> data j = GSlice xs \<and> snd (convertToIndex unrep k) = Some e \<longrightarrow>
        Get unrep j (k # rest) =
          failed ''Get'' (Errorf ''invalid array index %v at position %d: %v'' [k, GInt 0, GError e]))
   \<and> (err j = None \<and> data j = GSlice xs \<and> convertToIndex unrep k = (idx, None)
        \<and> (idx < 0 \<or> int (length xs) \<le> idx) \<longrightarrow>
        Get unrep j (k # rest) =
          failed ''Get'' (Errorf ''array index %d out of bounds (length: %d) at position %d''
            [GInt idx, GInt (int (length xs)), GInt 0]))
   \<and> (err j = None \<and> data j = GSlice xs \<and> convertToIndex unrep k = (idx, None)
        \<and> 0 \<le> idx \<and> idx < int (length xs) \<longrightarrow>
        Get unrep j [k] = JSONValue (xs ! nat idx) None)"
proof (intro conjI impI)
  show "snd (convertToIndex unrep k) = None \<longleftrightarrow>
      (\<exists>n. k = GInt n) \<or> (\<exists>f. k = GFloat64 f) \<or> (\<exists>s. k = GString s \<and> signed_decimal s)"
    by (cases k) (simp_all add: convertToIndex_def Atoi_ok_iff)
next
  assume "signed_decimal s"
  then show "convertToIndex unrep (GString s) = (signed_value s, None)"
    by (simp add: convertToIndex_def Atoi_ok_value)
next
  assume "err j = None \<and> data j = GSlice xs \<and> snd (convertToIndex unrep k) = Some e"
  then show "Get unrep j (k # rest) =
          failed ''Get'' (Errorf ''invalid array index %v at position %d: %v'' [k, GInt 0, GError e])"
    by (cases "convertToIndex unrep k") (simp add: Get_def)
next
  assume "err j = None \<and> data j = GSlice xs \<and> convertToIndex unrep k = (idx, None)
        \<and> (idx < 0 \<or> int (length xs) \<le> idx)"
  then show "Get unrep j (k # rest) =
          failed ''Get'' (Errorf ''array index %d out of bounds (length: %d) at position %d''
            [GInt idx, GInt (int (length xs)), GInt 0])"
    by (auto simp: Get_def)
next
  assume "err j = None \<and> data j = GSlice xs \<and> convertToIndex unrep k = (idx, None)
        \<and> 0 \<le> idx \<and> idx < int (length xs)"
  then show "Get unrep j [k] = JSONValue (xs ! nat idx) None"
    by (auto simp: Get_def)
qed (simp_all add: convertToIndex_def)

lemma Get_array_in_object_invalid:
  "err j = None \<and> data j = GMap m \<and> map_of m a = Some (GSlice xs)
      \<and> snd (convertToIndex unrep k) = Some e \<longrightarrow>
      Get unrep j (GString a # k # rest) =
        failed ''Get''
          (Errorf ''invalid array index %v at position %d: %v'' [k, GInt 1, GError e])"
  by (auto simp: Get_valid Get_loop_nil Get_loop_object_missing Get_loop_object_member
      Get_loop_array_invalid Get_loop_array_bounds Get_loop_array_element Get_loop_scalar
      simp del: Get_loop.simps(2))

lemma Get_array_in_object_bounds:
  "err j = None \<and> data j = GMap m \<and> map_of m a = Some (GSlice xs)
      \<and> convertToIndex unrep k = (idx, None) \<and> (idx < 0 \<or> int (length xs) \<le> idx) \<longrightarrow>
      Get unrep j (GString a # k # rest) =
        failed ''Get''
          (Errorf ''array index %d out of bounds (length: %d) at position %d''
             [GInt idx, GInt (int (length xs)), GInt 1])"
  by (auto simp: Get_valid Get_loop_nil Get_loop_object_missing Get_loop_object_member
      Get_loop_array_invalid Get_loop_array_bounds Get_loop_array_element Get_loop_scalar
      simp del: Get_loop.simps(2))

lemma Get_array_in_object_element:
  "err j = None \<and> data j = GMap m \<and> map_of m a = Some (GSlice xs)
      \<and> convertToIndex unrep k = (idx, None) \<and> 0 \<le> idx \<and> idx < int (length xs) \<longrightarrow>
      Get unrep j [GString a, k] = JSONValue (xs ! nat idx) None"
  by (auto simp: Get_valid Get_loop_nil Get_loop_object_missing Get_loop_object_member
      Get_loop_array_invalid Get_loop_array_bounds Get_loop_array_element Get_loop_scalar
      simp del: Get_loop.simps(2))

lemma Get_array_in_array_invalid:
  "err j = None \<and> data j = GSlice ys \<and> convertToIndex unrep k0 = (i0, None)
      \<and> 0 \<le> i0 \<and> i0 < int (length ys) \<and> ys ! nat i0 = GSlice xs
      \<and> snd (convertToIndex unrep k) = Some e \<longrightarrow>
      Get unrep j (k0 # k # rest) =
        failed ''Get''
          (Errorf ''invalid array index %v at position %d: %v'' [k, GInt 1, GError e])"
  by (auto simp: Get_valid Get_loop_nil Get_loop_object_missing Get_loop_object_member
      Get_loop_array_invalid Get_loop_array_bounds Get_loop_array_element Get_loop_scalar
      simp del: Get_loop.simps(2))

lemma Get_array_in_array_bounds:
  "err j = None \<and> data j = GSlice ys \<and> convertToIndex unrep k0 = (i0, None)
      \<and> 0 \<le> i0 \<and> i0 < int (length ys) \<and> ys ! nat i0 = GSlice xs
      \<and> convertToIndex unrep k = (idx, None) \<and> (idx < 0 \<or> int (length xs) \<le> idx) \<longrightarrow>
      Get unrep j (k0 # k # rest) =
        failed ''Get''
          (Errorf ''array index %d out of bounds (length: %d) at position %d''
             [GInt idx, GInt (int (length xs)), GInt 1])"
  by (auto simp: Get_valid Get_loop_nil Get_loop_object_missing Get_loop_object_member
      Get_loop_array_invalid Get_loop_array_bounds Get_loop_array_element Get_loop_scalar
      simp del: Get_loop.simps(2))

lemma Get_array_in_array_element:
  "err j = None \<and> data j = GSlice ys \<and> convertToIndex unrep k0 = (i0, None)
      \<and> 0 \<le> i0 \<and> i0 < int (length ys) \<and> ys ! nat i0 = GSlice xs
      \<and> convertToIndex unrep k = (idx, None) \<and> 0 \<le> idx \<and> idx < int (length xs) \<longrightarrow>
      Get unrep j [k0, k] = JSONValue (xs ! nat idx) None"
  by (auto simp: Get_valid Get_loop_nil Get_loop_object_missing Get_loop_object_member
      Get_loop_array_invalid Get_loop_array_bounds Get_loop_array_element Get_loop_scalar
      simp del: Get_loop.simps(2))

lemma Get_is_loop:
  "err j = None \<longrightarrow> Get unrep j keys = Get_loop unrep (data j) 0 keys"
  by (simp add: Get_valid)

lemma Get_loop_array_invalid_obj:
  "snd (convertToIndex unrep k) = Some e \<longrightarrow>
      Get_loop unrep (GSlice xs) i (k # rest) =
        failed ''Get''
          (Errorf ''invalid array index %v at position %d: %v'' [k, GInt i, GError e])"
  by (simp add: Get_loop_array_invalid del: Get_loop.simps)

lemma Get_loop_array_bounds_obj:
  "convertToIndex unrep k = (idx, None) \<and> (idx < 0 \<or> int (length xs) \<le> idx) \<longrightarrow>
      Get_loop unrep (GSlice xs) i (k # rest) =
        failed ''Get''
          (Errorf ''array index %d out of bounds (length: %d) at position %d''
             [GInt idx, GInt (int (length xs)), GInt i])"
  by (simp add: Get_loop_array_bounds del: Get_loop.simps)

lemma Get_loop_array_element_obj:
  "convertToIndex unrep k = (idx, None) \<and> 0 \<le> idx \<and> idx < int (length xs) \<longrightarrow>
      Get_loop unrep (GSlice xs) i (k # rest) = Get_loop unrep (xs ! nat idx) (i + 1) rest"
  by (simp add: Get_loop_array_element del: Get_loop.simps)

lemma Get_loop_object_member_obj:
  "map_of c s = Some child \<longrightarrow>
      Get_loop unrep (GMap c) i (GString s # rest) = Get_loop unrep child (i + 1) rest"
  by simp

lemma Get_loop_done:
  "Get_loop unrep n i [] = JSONValue n None"
  by simp

text \<open>
  C4, amended. \<^verbatim>\<open>convertToIndex\<close> succeeds exactly on a native \<^verbatim>\<open>int\<close> (taken as it is), a
  \<^verbatim>\<open>float64\<close> (converted by \<^verbatim>\<open>int(v)\<close>, which truncates toward zero) and a string that
  \<^verbatim>\<open>strconv.Atoi\<close> accepts: an optional sign and one or more decimal digits within the
  \<^verbatim>\<open>int\<close> range. Wherever navigation stands on an array (the receiver's own data, an
  array below an object key or below an array index, or the node any successful prefix
  \<open>ks\<close> of the path has led to), a key that does not convert makes \<^verbatim>\<open>Get\<close> fail with the
  "invalid array index" message; a key that converts to a negative index, or to one not
  below the length, makes it fail with the "array index out of bounds" message; any other
  key selects the element. The position operand of either message is the position of the
  key in the path. The same holds of the loop of \<^verbatim>\<open>Get\<close> at every position \<open>i\<close>, and on a
  valid receiver \<^verbatim>\<open>Get\<close> is that loop started at position 0.
\<close>

theorem array_index_conversion:
  "(snd (convertToIndex unrep k) = None \<longleftrightarrow>
      (\<exists>n. k = GInt n) \<or> (\<exists>f. k = GFloat64 f) \<or> (\<exists>s. k = GString s \<and> signed_decimal s))
   \<and> convertToIndex unrep (GInt n) = (n, None)
   \<and> convertToIndex unrep (GFloat64 f) = (float64_to_int unrep f, None)
   \<and> (signed_decimal s \<longrightarrow> convertToIndex unrep (GString s) = (signed_value s, None))
   \<and> (err j = None \<and> data j = GSlice xs \<and> snd (convertToIndex unrep k) = Some e \<longrightarrow>
        Get unrep j (k # rest) =
          failed ''Get'' (Errorf ''invalid array index %v at position %d: %v'' [k, GInt 0, GError e]))
   \<and> (err j = None \<and> data j = GSlice xs \<and> convertToIndex unrep k = (idx, None)
        \<and> (idx < 0 \<or> int (length xs) \<le> idx) \<longrightarrow>
        Get unrep j (k # rest) =
          failed ''Get'' (Errorf ''array index %d out of bounds (length: %d) at position %d''
            [GInt idx, GInt (int (length xs)), GInt 0]))
   \<and> (err j = None \<and> data j = GSlice xs \<and> convertToIndex unrep k = (idx, None)
        \<and> 0 \<le> idx \<and> idx < int (length xs) \<longrightarrow>
        Get unrep j [k] = JSONValue (xs ! nat idx) None)
   \<and> (err j = None \<and> Get unrep j ks = JSONValue (GSlice xs) None \<and> snd (convertToIndex unrep k) = Some e \<longrightarrow>
      Get unrep j (ks @ k # rest) =
        failed ''Get''
          (Errorf ''invalid array index %v at position %d: %v''
             [k, GInt (int (length ks)), GError e]))
   \<and> (err j = None \<and> Get unrep j ks = JSONValue (GSlice xs) None \<and> convertToIndex unrep k = (idx, None)
      \<and> (idx < 0 \<or> int (length xs) \<le> idx) \<longrightarrow>
      Get unrep j (ks @ k # rest) =
        failed ''Get''
          (Errorf ''array index %d out of bounds (length: %d) at position %d''
             [GInt idx, GInt (int (length xs)), GInt (int (length ks))]))
   \<and> (err j = None \<and> Get unrep j ks = JSONValue (GSlice xs) None \<and> convertToIndex unrep k = (idx, None)
      \<and> 0 \<le> idx \<and> idx < int (length xs) \<longrightarrow>
      Get unrep j (ks @ [k]) = JSONValue (xs ! nat idx) None)
   \<and> (err j = None \<and> data j = GMap m \<and> map_of m a = Some (GSlice xs)
      \<and> snd (convertToIndex unrep k) = Some e \<longrightarrow>
      Get unrep j (GString a # k # rest) =
        failed ''Get''
          (Errorf ''invalid array index %v at position %d: %v'' [k, GInt 1, GError e]))
   \<and> (err j = None \<and> data j = GMap m \<and> map_of m a = Some (GSlice xs)
      \<and> convertToIndex unrep k = (idx, None) \<and> (idx < 0 \<or> int (length xs) \<le> idx) \<longrightarrow>
      Get unrep j (GString a # k # rest) =
        failed ''Get''
          (Errorf ''array index %d out of bounds (length: %d) at position %d''
             [GInt idx, GInt (int (length xs)), GInt 1]))
   \<and> (err j = None \<and> data j = GMap m \<and> map_of m a = Some (GSlice xs)
      \<and> convertToIndex unrep k = (idx, None) \<and> 0 \<le> idx \<and> idx < int (length xs) \<longrightarrow>
      Get unrep j [GString a, k] = JSONValue (xs ! nat idx) None)
   \<and> (err j = None \<and> data j = GSlice ys \<and> convertToIndex unrep k0 = (i0, None)
      \<and> 0 \<le> i0 \<and> i0 < int (length ys) \<and> ys ! nat i0 = GSlice xs
      \<and> snd (convertToIndex unrep k) = Some e \<longrightarrow>
      Get unrep j (k0 # k # rest) =
        failed ''Get''
          (Errorf ''invalid array index %v at position %d: %v'' [k, GInt 1, GError e]))
   \<and> (err j = None \<and> data j = GSlice ys \<and> convertToIndex unrep k0 = (i0, None)
      \<and> 0 \<le> i0 \<and> i0 < int (length ys) \<and> ys ! nat i0 = GSlice xs
      \<and> convertToIndex unrep k = (idx, None) \<and> (idx < 0 \<or> int (length xs) \<le> idx) \<longrightarrow>
      Get unrep j (k0 # k # rest) =
        failed ''Get''
          (Errorf ''array index %d out of bounds (length: %d) at position %d''
             [GInt idx, GInt (int (length xs)), GInt 1]))
   \<and> (err j = None \<and> data j = GSlice ys \<and> convertToIndex unrep k0 = (i0, None)
      \<and> 0 \<le> i0 \<and> i0 < int (length ys) \<and> ys ! nat i0 = GSlice xs
      \<and> convertToIndex unrep k = (idx, None) \<and> 0 \<le> idx \<and> idx < int (length xs) \<longrightarrow>
      Get unrep j [k0, k] = JSONValue (xs ! nat idx) None)
   \<and> (err j = None \<longrightarrow> Get unrep j keys = Get_loop unrep (data j) 0 keys)
   \<and> (snd (convertToIndex unrep k) = Some e \<longrightarrow>
      Get_loop unrep (GSlice xs) i (k # rest) =
        failed ''Get''
          (Errorf ''invalid array index %v at position %d: %v'' [k, GInt i, GError e]))
   \<and> (convertToIndex unrep k = (idx, None) \<and> (idx < 0 \<or> int (length xs) \<le> idx) \<longrightarrow>
      Get_loop unrep (GSlice xs) i (k # rest) =
        failed ''Get''
          (Errorf ''array index %d out of bounds (length: %d) at position %d''
             [GInt idx, GInt (int (length xs)), GInt i]))
   \<and> (convertToIndex unrep k = (idx, None) \<and> 0 \<le> idx \<and> idx < int (length xs) \<longrightarrow>
      Get_loop unrep (GSlice xs) i (k # rest) = Get_loop unrep (xs ! nat idx) (i + 1) rest)
   \<and> (map_of c a = Some child \<longrightarrow>
      Get_loop unrep (GMap c) i (GString a # rest) = Get_loop unrep child (i + 1) rest)
   \<and> (Get_loop unrep node i [] = JSONValue node None)"
  by (intro conjI)
    (rule array_index_at_root [THEN conjunct1],
     rule array_index_at_root [THEN conjunct2, THEN conjunct1],
     rule array_index_at_root [THEN conjunct2, THEN conjunct2, THEN conjunct1],
     rule array_index_at_root [THEN conjunct2, THEN conjunct2, THEN conjunct2, THEN conjunct1],
     rule array_index_at_root [THEN conjunct2, THEN conjunct2, THEN conjunct2, THEN conjunct2, THEN conjunct1],
     rule array_index_at_root [THEN conjunct2, THEN conjunct2, THEN conjunct2, THEN conjunct2, THEN conjunct2, THEN conjunct1],
     rule array_index_at_root [THEN conjunct2, THEN conjunct2, THEN conjunct2, THEN conjunct2, THEN conjunct2, THEN conjunct2],
     rule Get_step_array_invalid,
     rule Get_step_array_bounds,
     rule Get_step_array_element,
     rule Get_array_in_object_invalid,
     rule Get_array_in_object_bounds,
     rule Get_array_in_object_element,
     rule Get_array_in_array_invalid,
     rule Get_array_in_array_bounds,
     rule Get_array_in_array_element,
     rule Get_is_loop,
     rule Get_loop_array_invalid_obj,
     rule Get_loop_array_bounds_obj,
     rule Get_loop_array_element_obj,
     rule Get_loop_object_member_obj,
     rule Get_loop_done)

theorem array_index_conversion_witness:
  "Get unrep_amd64
       (Valid (GMap [(''array'', GSlice [GFloat64 0x3FF0000000000000, GFloat64 0x4000000000000000,
                                        GFloat64 0x4008000000000000]),
                     (''object'', GMap [(''nested'', GString ''value'')]), (''null'', GNil)]))
       [GString ''array'', GString ''invalid''] =
     failed ''Get'' (Errorf ''invalid array index %v at position %d: %v''
       [GString ''invalid'', GInt 1, GError (NumError ''Atoi'' ''invalid'' ErrSyntax)])
   \<and> Get unrep_amd64
       (Valid (GMap [(''array'', GSlice [GFloat64 0x3FF0000000000000, GFloat64 0x4000000000000000,
                                        GFloat64 0x4008000000000000]),
                     (''object'', GMap [(''nested'', GString ''value'')]), (''null'', GNil)]))
       [GString ''array'', GInt (- 1)] =
     failed ''Get'' (Errorf ''array index %d out of bounds (length: %d) at position %d''
       [GInt (- 1), GInt 3, GInt 1])
   \<and> Get unrep_amd64
       (Valid (GMap [(''array'', GSlice [GFloat64 0x3FF0000000000000, GFloat64 0x4000000000000000,
                                        GFloat64 0x4008000000000000]),
                     (''object'', GMap [(''nested'', GString ''value'')]), (''null'', GNil)]))
       [GString ''array'', GInt 1] =
     JSONValue (GFloat64 0x4000000000000000) None
   \<and> Get unrep_amd64 (Valid (GSlice [GString ''a'', GString ''b''])) [GBool True] =
     failed ''Get'' (Errorf ''invalid array index %v at position %d: %v''
       [GBool True, GInt 0, GError (Errorf ''cannot convert %T to array index'' [GBool True])])
   \<and> Get unrep_amd64 (Valid (GSlice [GString ''a'', GString ''b''])) [GString ''-1''] =
     failed ''Get'' (Errorf ''array index %d out of bounds (length: %d) at position %d''
       [GInt (- 1), GInt 2, GInt 0])
   \<and> Get unrep_amd64 (Valid (GSlice [GString ''a'', GString ''b''])) [GString ''1''] =
     JSONValue (GString ''b'') None
   \<and> Get unrep_amd64 (Valid (GSlice [GString ''a'', GString ''b''])) [GFloat64 0x3FFE666666666666] =
     JSONValue (GString ''b'') None
   \<and> Get unrep_amd64 (Valid (GSlice [GString ''a'', GString ''b''])) [GFloat64 0xBFE0000000000000] =
     JSONValue (GString ''a'') None"
proof -
  let ?arr = "[GFloat64 0x3FF0000000000000, GFloat64 0x4000000000000000, GFloat64 0x4008000000000000]"
  let ?m = "[(''array'', GSlice ?arr), (''object'', GMap [(''nested'', GString ''value'')]),
             (''null'', GNil)]"
  let ?obj = "Valid (GMap ?m)"
  let ?j = "Valid (GSlice [GString ''a'', GString ''b''])"
  let ?xs = "[GString ''a'', GString ''b'']"
  have c0: "convertToIndex unrep_amd64 (GString ''invalid'') =
      (0, Some (NumError ''Atoi'' ''invalid'' ErrSyntax))"
    by (simp add: convertToIndex_def Atoi_def is_digit_def digit_val_def maxUint64_def)
  have c1: "convertToIndex unrep_amd64 (GBool True) =
      (0, Some (Errorf ''cannot convert %T to array index'' [GBool True]))"
    by (simp add: convertToIndex_def)
  have ci: "convertToIndex unrep_amd64 (GInt (- 1)) = (- 1, None)"
    "convertToIndex unrep_amd64 (GInt 1) = (1, None)"
    by (simp_all add: convertToIndex_def)
  have sd: "signed_decimal ''-1''" "signed_decimal ''1''"
    by (simp_all add: signed_decimal_def is_digit_def decimal_value_def digit_val_def)
  have sv: "signed_value ''-1'' = - 1" "signed_value ''1'' = 1"
    by (simp_all add: signed_value_def decimal_value_def digit_val_def)
  have c5: "float64_to_int unrep_amd64 0x3FFE666666666666 = 1"
    by (simp add: float64_to_int_def Let_def drop_bit_eq_div take_bit_eq_mod bit_iff_odd)
  have c6: "float64_to_int unrep_amd64 0xBFE0000000000000 = 0"
    by (simp add: float64_to_int_def Let_def drop_bit_eq_div take_bit_eq_mod bit_iff_odd)
  note u = array_index_conversion [where unrep = unrep_amd64 and j = ?obj and m = ?m
      and a = "''array''" and xs = ?arr and rest = "[]"]
  from u [where k = "GString ''invalid''" and e = "NumError ''Atoi'' ''invalid'' ErrSyntax"] c0
  have q1: "Get unrep_amd64 ?obj [GString ''array'', GString ''invalid''] =
     failed ''Get'' (Errorf ''invalid array index %v at position %d: %v''
       [GString ''invalid'', GInt 1, GError (NumError ''Atoi'' ''invalid'' ErrSyntax)])"
    by (simp add: Valid_def)
  from u [where k = "GInt (- 1)" and idx = "- 1"] ci
  have q2: "Get unrep_amd64 ?obj [GString ''array'', GInt (- 1)] =
     failed ''Get'' (Errorf ''array index %d out of bounds (length: %d) at position %d''
       [GInt (- 1), GInt 3, GInt 1])"
    by (simp add: Valid_def)
  from u [where k = "GInt 1" and idx = 1] ci
  have q3: "Get unrep_amd64 ?obj [GString ''array'', GInt 1] =
     JSONValue (GFloat64 0x4000000000000000) None"
    by (simp add: Valid_def)
  note t = array_index_conversion [where unrep = unrep_amd64 and j = ?j and xs = ?xs and rest = "[]"]
  from t [where k = "GBool True" and e = "Errorf ''cannot convert %T to array index'' [GBool True]"] c1
  have r1: "Get unrep_amd64 ?j [GBool True] =
     failed ''Get'' (Errorf ''invalid array index %v at position %d: %v''
       [GBool True, GInt 0, GError (Errorf ''cannot convert %T to array index'' [GBool True])])"
    by (simp add: Valid_def)
  from t [where k = "GString ''-1''" and s = "''-1''" and idx = "- 1"] sd sv
  have r3: "Get unrep_amd64 ?j [GString ''-1''] =
     failed ''Get'' (Errorf ''array index %d out of bounds (length: %d) at position %d''
       [GInt (- 1), GInt 2, GInt 0])"
    by (simp add: Valid_def)
  from t [where k = "GString ''1''" and s = "''1''" and idx = 1] sd sv
  have r4: "Get unrep_amd64 ?j [GString ''1''] = JSONValue (GString ''b'') None"
    by (simp add: Valid_def)
  from t [where k = "GFloat64 0x3FFE666666666666" and f = "0x3FFE666666666666" and idx = 1] c5
  have r5: "Get unrep_amd64 ?j [GFloat64 0x3FFE666666666666] = JSONValue (GString ''b'') None"
    by (simp add: Valid_def)
  from t [where k = "GFloat64 0xBFE0000000000000" and f = "0xBFE0000000000000" and idx = 0] c6
  have r6: "Get unrep_amd64 ?j [GFloat64 0xBFE0000000000000] = JSONValue (GString ''a'') None"
    by (simp add: Valid_def)
  from q1 q2 q3 r1 r3 r4 r5 r6 show ?thesis by blast
qed

subsection \<open>Stringify\<close>

lemma getBytesBuffer_empty:
  assumes "pool_empty_buffers pool" and "getBytesBuffer env pool = (b, pool1)"
  shows "buf_bytes b = [] \<and> pool_empty_buffers pool1"
proof (cases "pool_choice env pool")
  case None
  with assms show ?thesis by (auto simp: getBytesBuffer_def new_buffer_def)
next
  case (Some k)
  show ?thesis
  proof (cases "k < length pool")
    case True
    with Some assms(2) have b: "b = pool ! k" and p: "pool1 = take k pool @ drop (Suc k) pool"
      by (auto simp: getBytesBuffer_def)
    from assms(1) True have "buf_bytes (pool ! k) = []"
      by (simp add: pool_empty_buffers_def list_all_length)
    moreover from assms(1) have "pool_empty_buffers (take k pool @ drop (Suc k) pool)"
      by (auto simp: pool_empty_buffers_def list_all_iff dest: in_set_takeD in_set_dropD)
    ultimately show ?thesis using b p by simp
  next
    case False
    with Some assms show ?thesis by (auto simp: getBytesBuffer_def new_buffer_def)
  qed
qed

lemma putBytesBuffer_empty:
  "pool_empty_buffers pool \<Longrightarrow> pool_empty_buffers (putBytesBuffer b pool)"
  by (simp add: putBytesBuffer_def pool_empty_buffers_def)

lemma trim_newline_line: "trim_newline (out @ [CHR 0x0A]) = out"
  by (simp add: trim_newline_def)

lemma Stringify_encode_ok:
  assumes "pool_empty_buffers pool" and "json_marshal env v = (out, None)"
  shows "fst (Stringify_encode env pool v) = (out, None)
       \<and> pool_empty_buffers (snd (Stringify_encode env pool v))"
proof -
  obtain b pool1 where g: "getBytesBuffer env pool = (b, pool1)"
    by (cases "getBytesBuffer env pool")
  from getBytesBuffer_empty [OF assms(1) g] have e: "buf_bytes b = []" "pool_empty_buffers pool1"
    by simp_all
  then have e1: "buf_bytes (if buf_cap b < 512 then new_buffer else b) = []"
    by (simp add: new_buffer_def)
  show ?thesis
    using e(2) e1 assms(2)
    by (simp add: Stringify_encode_def g Encoder_Encode_def bytesWriter_Write_def Let_def
        trim_newline_line putBytesBuffer_empty)
qed

lemma Stringify_encode_error:
  assumes "json_marshal env v = (out, Some e)"
  shows "fst (Stringify_encode env pool v) = ([], Some (JSONError ''Stringify'' (Some e)))"
  using assms
  by (simp add: Stringify_encode_def Encoder_Encode_def Let_def split: prod.splits)

lemma Stringify_encode_pool:
  assumes "pool_empty_buffers pool"
  shows "pool_empty_buffers (snd (Stringify_encode env pool v))"
proof -
  obtain b pool1 where g: "getBytesBuffer env pool = (b, pool1)"
    by (cases "getBytesBuffer env pool")
  from getBytesBuffer_empty [OF assms g] have "pool_empty_buffers pool1" by simp
  then show ?thesis
    by (auto simp: Stringify_encode_def g Encoder_Encode_def Let_def putBytesBuffer_empty
        split: prod.splits option.splits)
qed

lemma To_pool:
  assumes "pool_empty_buffers pool"
  shows "pool_empty_buffers (snd (To env pool j dest))"
proof -
  obtain b pool1 where g: "getBytesBuffer env pool = (b, pool1)"
    by (cases "getBytesBuffer env pool")
  from getBytesBuffer_empty [OF assms g] have "pool_empty_buffers pool1" by simp
  with assms show ?thesis
    by (auto simp: To_def g Encoder_Encode_def Let_def putBytesBuffer_empty
        split: prod.splits option.splits)
qed

lemma Parse_pool:
  assumes "pool_empty_buffers pool"
  shows "pool_empty_buffers (snd (Parse env pool v dest))"
proof -
  have t: "\<And>j d r pool'. To env pool j d = (r, pool') \<Longrightarrow> pool_empty_buffers pool'"
    using To_pool [OF assms, of env] by (metis snd_conv)
  with assms show ?thesis
    by (auto simp: Parse_def Let_def split: go_value.splits prod.splits option.splits)
qed

lemma Clone_pool:
  assumes "pool_empty_buffers pool"
  shows "pool_empty_buffers (snd (Clone env pool j))"
proof -
  obtain b pool1 where g: "getBytesBuffer env pool = (b, pool1)"
    by (cases "getBytesBuffer env pool")
  from getBytesBuffer_empty [OF assms g] have p1: "pool_empty_buffers pool1" by simp
  have "\<And>bs r pool'. Parse env pool1 (GBytes bs) [] = (r, pool') \<Longrightarrow> pool_empty_buffers pool'"
    using Parse_pool [OF p1, of env] by (metis snd_conv)
  with assms p1 show ?thesis
    by (auto simp: Clone_def g Encoder_Encode_def Let_def putBytesBuffer_empty
        split: prod.splits option.splits)
qed

text \<open>
  C8. \<^verbatim>\<open>Stringify\<close> of a \<^verbatim>\<open>JSONValue\<close> in failure state returns that value's error and the
  empty string. \<^verbatim>\<open>Stringify(nil)\<close> returns the text \<^verbatim>\<open>null\<close> and no error; so does
  \<^verbatim>\<open>Stringify\<close> of a valid \<^verbatim>\<open>JSONValue\<close> whose data is \<^verbatim>\<open>nil\<close>, which goes through the
  encoder: this needs the encoder to render \<^verbatim>\<open>nil\<close> as \<^verbatim>\<open>null\<close>, as \<^verbatim>\<open>encoding/json\<close> does,
  and the pooled buffers to be empty, which \<^verbatim>\<open>Stringify\<close> itself maintains. When the
  encoder fails on any other input, the error returned has the operation tag
  \<^verbatim>\<open>Stringify\<close> and wraps the encoder's error.
\<close>

theorem Stringify_contract:
  "(err jv = Some e \<longrightarrow> Stringify env pool (GJSONValue jv) = (([], Some e), pool))
   \<and> Stringify env pool GNil = ((''null'', None), pool)
   \<and> (pool_empty_buffers pool \<and> json_marshal env GNil = (''null'', None)
        \<and> err jv = None \<and> data jv = GNil \<longrightarrow>
        fst (Stringify env pool (GJSONValue jv)) = (''null'', None))
   \<and> (v \<noteq> GNil \<and> (\<forall>jv'. v \<noteq> GJSONValue jv') \<and> json_marshal env v = (out, Some e') \<longrightarrow>
        fst (Stringify env pool v) = ([], Some (JSONError ''Stringify'' (Some e'))))
   \<and> (err jv = None \<and> json_marshal env (data jv) = (out, Some e') \<longrightarrow>
        fst (Stringify env pool (GJSONValue jv)) = ([], Some (JSONError ''Stringify'' (Some e'))))
   \<and> (pool_empty_buffers pool \<longrightarrow> pool_empty_buffers (snd (Stringify env pool v)))"
proof (intro conjI impI)
  assume "pool_empty_buffers pool \<and> json_marshal env GNil = (''null'', None)
        \<and> err jv = None \<and> data jv = GNil"
  then show "fst (Stringify env pool (GJSONValue jv)) = (''null'', None)"
    using Stringify_encode_ok [of pool env GNil "''null''"] by (simp add: Stringify_def)
next
  assume "v \<noteq> GNil \<and> (\<forall>jv'. v \<noteq> GJSONValue jv') \<and> json_marshal env v = (out, Some e')"
  then show "fst (Stringify env pool v) = ([], Some (JSONError ''Stringify'' (Some e')))"
    using Stringify_encode_error [of env v out e' pool]
    by (cases v) (simp_all add: Stringify_def)
next
  assume "err jv = None \<and> json_marshal env (data jv) = (out, Some e')"
  then show "fst (Stringify env pool (GJSONValue jv)) = ([], Some (JSONError ''Stringify'' (Some e')))"
    using Stringify_encode_error [of env "data jv" out e' pool]
    by (simp add: Stringify_def)
next
  assume "pool_empty_buffers pool"
  then show "pool_empty_buffers (snd (Stringify env pool v))"
    using Stringify_encode_pool [of pool env]
    by (cases v) (auto simp: Stringify_def)
qed (simp_all add: Stringify_def)

theorem Stringify_contract_witness:
  "Stringify null_only_env [] (GJSONValue (failed ''Parse'' (Errorf ''empty string'' []))) =
     (([], Some (JSONError ''Parse'' (Some (Errorf ''empty string'' [])))), [])
   \<and> fst (Stringify null_only_env [\<lparr>buf_bytes = [], buf_cap = 2048\<rparr>] (GJSONValue (Valid GNil))) =
       (''null'', None)
   \<and> fst (Stringify null_only_env [] (GFloat64 0x7FF8000000000000)) =
       ([], Some (JSONError ''Stringify'' (Some (ExternalError ''json: unsupported value''))))
   \<and> fst (Stringify null_only_env [] (GJSONValue (Valid (GFloat64 0x7FF8000000000000)))) =
       ([], Some (JSONError ''Stringify'' (Some (ExternalError ''json: unsupported value''))))
   \<and> pool_empty_buffers
        (snd (Stringify null_only_env [\<lparr>buf_bytes = [], buf_cap = 2048\<rparr>] (GJSONValue (Valid GNil))))"
proof -
  let ?p = "[\<lparr>buf_bytes = [], buf_cap = 2048\<rparr>]"
  let ?nan = "GFloat64 0x7FF8000000000000"
  let ?e = "ExternalError ''json: unsupported value''"
  have p: "pool_empty_buffers ?p" "pool_empty_buffers []"
    by (simp_all add: pool_empty_buffers_def)
  have m: "json_marshal null_only_env GNil = (''null'', None)"
    "json_marshal null_only_env ?nan = ([], Some ?e)"
    by (simp_all add: null_only_env_def)
  from Stringify_contract [of "failed ''Parse'' (Errorf ''empty string'' [])"
      "JSONError ''Parse'' (Some (Errorf ''empty string'' []))" null_only_env "[]"]
  have r1: "Stringify null_only_env [] (GJSONValue (failed ''Parse'' (Errorf ''empty string'' []))) =
     (([], Some (JSONError ''Parse'' (Some (Errorf ''empty string'' [])))), [])"
    by (simp add: failed_def)
  from Stringify_contract [of "Valid GNil" _ null_only_env ?p "GJSONValue (Valid GNil)"] p m
  have r2: "fst (Stringify null_only_env ?p (GJSONValue (Valid GNil))) = (''null'', None)"
    and r5: "pool_empty_buffers (snd (Stringify null_only_env ?p (GJSONValue (Valid GNil))))"
    by (simp_all add: Valid_def)
  from Stringify_contract [of "Valid ?nan" _ null_only_env "[]" ?nan "[]" ?e] m
  have r3: "fst (Stringify null_only_env [] ?nan) = ([], Some (JSONError ''Stringify'' (Some ?e)))"
    and r4: "fst (Stringify null_only_env [] (GJSONValue (Valid ?nan))) =
       ([], Some (JSONError ''Stringify'' (Some ?e)))"
    by (simp_all add: Valid_def)
  from r1 r2 r3 r4 r5 show ?thesis by blast
qed

subsection \<open>Parse of a JSONValue\<close>

text \<open>
  C9. \<^verbatim>\<open>Parse(v)\<close>, with no destination, of a \<open>v\<close> that is a \<^verbatim>\<open>JSONValue\<close> returns that
  \<^verbatim>\<open>JSONValue\<close> with its data and its error as they are, in success and in failure state,
  and leaves the pool alone. Hence \<^verbatim>\<open>Parse(Parse(x))\<close> is \<^verbatim>\<open>Parse(x)\<close> for every input
  \<open>x\<close>.
\<close>

theorem Parse_JSONValue_idempotent:
  "Parse env pool (GJSONValue j) [] = (j, pool)
   \<and> fst (Parse env pool' (GJSONValue (fst (Parse env pool x []))) []) = fst (Parse env pool x [])"
  by (simp add: Parse_def)

theorem Parse_JSONValue_idempotent_witness:
  "Parse null_only_env [] (GJSONValue (failed ''Get'' (Errorf ''key %q not found at position %d''
      [GString ''k'', GInt 0]))) [] =
     (failed ''Get'' (Errorf ''key %q not found at position %d'' [GString ''k'', GInt 0]), [])
   \<and> fst (Parse null_only_env [] (GJSONValue (fst (Parse null_only_env [] (GString ''null'') []))) []) =
       Valid GNil
   \<and> fst (Parse null_only_env [] (GJSONValue (fst (Parse null_only_env [] (GString []) []))) []) =
       failed ''Parse'' (Errorf ''empty string'' [])"
  using Parse_JSONValue_idempotent [of null_only_env "[]"
      "failed ''Get'' (Errorf ''key %q not found at position %d'' [GString ''k'', GInt 0])"]
    Parse_JSONValue_idempotent [of null_only_env "[]" _ "[]" "GString ''null''"]
    Parse_JSONValue_idempotent [of null_only_env "[]" _ "[]" "GString []"]
  by (simp add: Parse_def Parse_bytes_def null_only_env_def Valid_def)

end
